theory Spec2Isabelle
  imports Main
begin

section \<open>Prodit: the Xero token lifecycle\<close>

text \<open>
  A shallow embedding of the credential cipher and the credential store of
  \<^verbatim>\<open>src/database/db.js\<close> and of the OAuth callback and the request pipeline of the
  server (\<^verbatim>\<open>src/unnamed/part_005\<close>). Every \<^verbatim>\<open>throw\<close> is a value of type
  \<open>failure\<close>; the database table, the clock, the random source and the provider's
  replies are fields of an explicit \<open>world\<close> that each operation returns updated.
\<close>

subsection \<open>Buffers and base64\<close>

text \<open>
  A Node \<^verbatim>\<open>Buffer\<close> is a list of bytes. A \<open>char\<close> is one byte, so a JavaScript string
  is read as its UTF-8 bytes and \<^verbatim>\<open>Buffer.from(s, 'utf8')\<close> and
  \<^verbatim>\<open>buf.toString('utf8')\<close> are the identity.
\<close>

type_synonym bytes = "char list"

definition bits_of_char :: "char \<Rightarrow> bool list" where
  "bits_of_char c =
     [digit7 c, digit6 c, digit5 c, digit4 c, digit3 c, digit2 c, digit1 c, digit0 c]"

definition bits_of_bytes :: "bytes \<Rightarrow> bool list" where
  "bits_of_bytes bs = concat (map bits_of_char bs)"

fun bytes_of_bits :: "bool list \<Rightarrow> bytes" where
  "bytes_of_bits (b7 # b6 # b5 # b4 # b3 # b2 # b1 # b0 # rest) =
     Char b0 b1 b2 b3 b4 b5 b6 b7 # bytes_of_bits rest"
| "bytes_of_bits _ = []"

text \<open>Bit \<open>i\<close> of a buffer, counted from the most significant bit of its first byte, flipped.\<close>

definition flip_nth_bit :: "nat \<Rightarrow> bytes \<Rightarrow> bytes" where
  "flip_nth_bit i bs = bytes_of_bits ((bits_of_bytes bs)[i := \<not> bits_of_bytes bs ! i])"

definition b64_alphabet :: string where
  "b64_alphabet = ''ABCDEFGHIJKLMNOPQRSTUVWXYZabcdefghijklmnopqrstuvwxyz0123456789+/''"

definition nat_of_bits :: "bool list \<Rightarrow> nat" where
  "nat_of_bits bs = foldl (\<lambda>n b. 2 * n + (if b then 1 else 0)) 0 bs"

definition bits_of_sextet :: "nat \<Rightarrow> bool list" where
  "bits_of_sextet n =
     [odd (n div 32), odd (n div 16), odd (n div 8), odd (n div 4), odd (n div 2), odd n]"

fun sextets_of_bits :: "bool list \<Rightarrow> nat list" where
  "sextets_of_bits [] = []"
| "sextets_of_bits (a # b # c # d # e # f # rest) =
     nat_of_bits [a, b, c, d, e, f] # sextets_of_bits rest"
| "sextets_of_bits partial =
     [nat_of_bits (take 6 (partial @ [False, False, False, False, False, False]))]"

text \<open>\<^verbatim>\<open>buf.toString('base64')\<close>: the standard alphabet, padded with \<^verbatim>\<open>=\<close>.\<close>

definition b64_encode :: "bytes \<Rightarrow> string" where
  "b64_encode bs =
     map (\<lambda>n. b64_alphabet ! n) (sextets_of_bits (bits_of_bytes bs))
     @ replicate ((3 - length bs mod 3) mod 3) (CHR ''='')"

fun index_of :: "'a \<Rightarrow> 'a list \<Rightarrow> nat option" where
  "index_of x [] = None"
| "index_of x (y # ys) = (if x = y then Some 0 else map_option Suc (index_of x ys))"

definition unbase64 :: "char \<Rightarrow> nat option" where
  "unbase64 c =
     (if c = CHR ''-'' then Some 62 else if c = CHR ''_'' then Some 63
      else index_of c b64_alphabet)"

text \<open>
  \<^verbatim>\<open>Buffer.from(s, 'base64')\<close> never throws: it stops at the first \<^verbatim>\<open>=\<close>, skips
  every character outside the alphabet (the URL-safe \<^verbatim>\<open>-\<close> and \<^verbatim>\<open>_\<close> are read too),
  and drops the bits of the last characters that do not fill a byte.
\<close>

definition b64_decode :: "string \<Rightarrow> bytes" where
  "b64_decode s =
     bytes_of_bits (concat (map bits_of_sextet
       (List.map_filter unbase64 (takeWhile (\<lambda>c. c \<noteq> CHR ''='') s))))"

text \<open>
  The decimal digits of a number: \<^verbatim>\<open>Number.prototype.toString\<close> on a user id, and a
  length in an error message.
\<close>

fun toString :: "nat \<Rightarrow> string" where
  "toString n =
     (if n < 10 then [''0123456789'' ! n]
      else toString (n div 10) @ [''0123456789'' ! (n mod 10)])"

declare toString.simps [simp del]

subsection \<open>Token bundles, failures and the runtime's cipher\<close>

text \<open>
  The token bundle is the JSON object of the provider's token response; the code reads
  its \<^verbatim>\<open>access_token\<close> and \<^verbatim>\<open>refresh_token\<close>. A field that is absent is \<open>None\<close>.
\<close>

record tokens =
  access_token :: "string option"
  refresh_token :: "string option"
  expires_in :: "nat option"

text \<open>JavaScript truthiness of a value that is a string or \<^verbatim>\<open>undefined\<close>.\<close>

definition truthy :: "string option \<Rightarrow> bool" where
  "truthy v = (case v of None \<Rightarrow> False | Some s \<Rightarrow> s \<noteq> [])"

datatype endpoint = XERO_TOKEN | XERO_CONN | XERO_API

text \<open>
  What a call can throw: an \<^verbatim>\<open>Error\<close> the repository's code constructs with its
  message, an error raised inside Node's \<^verbatim>\<open>crypto\<close> module, the \<^verbatim>\<open>SyntaxError\<close> of
  \<^verbatim>\<open>JSON.parse\<close>, a \<^verbatim>\<open>TypeError\<close> on reading a property of \<^verbatim>\<open>undefined\<close>, and the
  error axios rejects with, which holds the response's status and body when there was
  a response.
\<close>

datatype failure =
    Error string
  | CryptoError string
  | SyntaxError
  | TypeError
  | AxiosError endpoint "(nat \<times> string) option"

text \<open>
  \<^verbatim>\<open>JSON.stringify\<close>, \<^verbatim>\<open>JSON.parse\<close> and the AES-256-GCM cipher of Node's \<^verbatim>\<open>crypto\<close>
  module are not code of the repository: they are parameters of the model.
  \<open>gcm_encrypt key nonce plaintext\<close> is the ciphertext and the authentication tag
  (\<^verbatim>\<open>update\<close>, \<^verbatim>\<open>final\<close>, \<^verbatim>\<open>getAuthTag\<close>); \<open>gcm_decrypt key nonce tag ciphertext\<close> is
  the plaintext of \<^verbatim>\<open>update\<close> and \<^verbatim>\<open>final\<close> for a tag that \<^verbatim>\<open>setAuthTag\<close> took, and
  \<open>None\<close> when \<^verbatim>\<open>final\<close> throws.
\<close>

record runtime =
  json_stringify :: "tokens \<Rightarrow> string"
  json_parse :: "string \<Rightarrow> tokens option"
  gcm_encrypt :: "bytes \<Rightarrow> bytes \<Rightarrow> bytes \<Rightarrow> bytes \<times> bytes"
  gcm_decrypt :: "bytes \<Rightarrow> bytes \<Rightarrow> bytes \<Rightarrow> bytes \<Rightarrow> bytes option"

text \<open>
  The argument checks of the \<^verbatim>\<open>crypto\<close> module. \<^verbatim>\<open>createCipheriv('aes-256-gcm', key, iv)\<close>
  and \<^verbatim>\<open>createDecipheriv\<close> first throw \<^verbatim>\<open>Invalid initialization vector\<close> for an iv of
  no bytes, and then a \<^verbatim>\<open>RangeError\<close> for a key that is not 32 bytes long.
\<close>

definition createCipheriv :: "bytes \<Rightarrow> bytes \<Rightarrow> failure option" where
  "createCipheriv key nonce =
     (if nonce = [] then Some (CryptoError ''Invalid initialization vector'')
      else if length key \<noteq> 32 then Some (CryptoError ''Invalid key length'')
      else None)"

definition createDecipheriv :: "bytes \<Rightarrow> bytes \<Rightarrow> failure option" where
  "createDecipheriv key nonce = createCipheriv key nonce"

text \<open>
  \<^verbatim>\<open>decipher.setAuthTag(tag)\<close>: the code gives \<^verbatim>\<open>createDecipheriv\<close> no \<^verbatim>\<open>authTagLength\<close>,
  so a tag of 4, 8 or 12 to 16 bytes is taken and any other length makes \<^verbatim>\<open>setAuthTag\<close>
  throw.
\<close>

definition valid_gcm_tag_length :: "nat \<Rightarrow> bool" where
  "valid_gcm_tag_length n \<longleftrightarrow> n = 4 \<or> n = 8 \<or> (12 \<le> n \<and> n \<le> 16)"

definition setAuthTag :: "bytes \<Rightarrow> failure option" where
  "setAuthTag tg =
     (if valid_gcm_tag_length (length tg) then None
      else Some (CryptoError (''Invalid authentication tag length: '' @ toString (length tg))))"

text \<open>
  The contracts of the runtime that the theorems below name as hypotheses: a bundle
  survives \<^verbatim>\<open>JSON.stringify\<close> and \<^verbatim>\<open>JSON.parse\<close>; under the key and any 12-byte iv the
  cipher returns a 16-byte tag and decrypts what it encrypted; under the key and any
  12-byte iv the cipher rejects its own output once a single bit of the iv, of the tag
  or of the ciphertext is flipped; \<^verbatim>\<open>final\<close> compares a tag of an admitted length with as
  many leading bytes of the tag it computed, so it accepts the leading bytes of the tag
  that \<^verbatim>\<open>getAuthTag\<close> returned.
\<close>

definition json_faithful :: "runtime \<Rightarrow> tokens \<Rightarrow> bool" where
  "json_faithful R b \<longleftrightarrow> json_parse R (json_stringify R b) = Some b"

definition gcm_correct :: "runtime \<Rightarrow> bytes \<Rightarrow> bool" where
  "gcm_correct R key \<longleftrightarrow>
     (\<forall>nonce pt. length nonce = 12 \<longrightarrow>
        length (snd (gcm_encrypt R key nonce pt)) = 16 \<and>
        gcm_decrypt R key nonce (snd (gcm_encrypt R key nonce pt))
          (fst (gcm_encrypt R key nonce pt)) = Some pt)"

definition gcm_authentic :: "runtime \<Rightarrow> bytes \<Rightarrow> bool" where
  "gcm_authentic R key \<longleftrightarrow>
     (\<forall>nonce pt i. length nonce = 12 \<longrightarrow>
        (i < 8 * length nonce \<longrightarrow>
           gcm_decrypt R key (flip_nth_bit i nonce) (snd (gcm_encrypt R key nonce pt))
             (fst (gcm_encrypt R key nonce pt)) = None) \<and>
        (i < 8 * length (snd (gcm_encrypt R key nonce pt)) \<longrightarrow>
           gcm_decrypt R key nonce (flip_nth_bit i (snd (gcm_encrypt R key nonce pt)))
             (fst (gcm_encrypt R key nonce pt)) = None) \<and>
        (i < 8 * length (fst (gcm_encrypt R key nonce pt)) \<longrightarrow>
           gcm_decrypt R key nonce (snd (gcm_encrypt R key nonce pt))
             (flip_nth_bit i (fst (gcm_encrypt R key nonce pt))) = None))"

definition gcm_short_tags :: "runtime \<Rightarrow> bytes \<Rightarrow> bool" where
  "gcm_short_tags R key \<longleftrightarrow>
     (\<forall>nonce pt n. length nonce = 12 \<and> valid_gcm_tag_length n \<longrightarrow>
        gcm_decrypt R key nonce (take n (snd (gcm_encrypt R key nonce pt)))
          (fst (gcm_encrypt R key nonce pt)) = Some pt)"

subsection \<open>The world: table, clock, random source, provider\<close>

record row =
  row_id :: nat
  user_id :: nat
  tenant_id :: string
  tenant_name :: string
  encrypted_tokens :: string
  encryption_iv :: string
  encryption_tag :: string
  is_system_connection :: bool
  created_at :: nat
  last_synced :: nat

text \<open>
  A reply of the provider as axios settles it: \<open>Success\<close> is a response whose status
  passes the default \<^verbatim>\<open>validateStatus\<close> (2xx) with its parsed body, \<open>Failure\<close> a
  response with any other status and its body, \<open>NoReply\<close> a request that got no
  response (network error, timeout).
\<close>

datatype 'a reply = Success 'a | Failure nat string | NoReply

datatype token_request =
    AuthorizationCode "string option" string
  | RefreshToken "string option"

record org =
  tenantId_o :: string
  tenantName_o :: string
  createdDateUtc :: int

record api_request =
  http_method :: string
  url :: string
  authorization :: string
  xero_tenant_id :: string
  body :: string

text \<open>The log records every outbound request and every write to the table, in order.\<close>

datatype event =
    TokenPost token_request
  | ConnGet string
  | ApiCall api_request
  | DbUpsert nat string
  | DbUpdate nat string

text \<open>
  \<open>entropy\<close> scripts the results of the successive \<^verbatim>\<open>crypto.randomBytes\<close> calls;
  \<open>token_replies\<close>, \<open>conn_replies\<close> and \<open>api_replies\<close> script the provider: the
  \<open>n\<close>th request to an endpoint is answered by the \<open>n\<close>th function applied to the
  request, and by no response once the script is used up.
\<close>

record world =
  rows :: "row list"
  next_id :: nat
  clock :: nat
  entropy :: "bytes list"
  token_replies :: "(token_request \<Rightarrow> tokens reply) list"
  conn_replies :: "(string \<Rightarrow> org list option reply) list"
  api_replies :: "(api_request \<Rightarrow> string reply) list"
  log :: "event list"

record env =
  PREDITOR_TOKEN_KEY :: "string option"
  PRODIT_TOKEN_KEY :: "string option"
  PUBLIC_URL :: string

definition randomBytes :: "nat \<Rightarrow> world \<Rightarrow> bytes \<times> world" where
  "randomBytes n w =
     (case entropy w of
        [] \<Rightarrow> (replicate n (CHR 0x00), w)
      | x # xs \<Rightarrow> (take n (x @ replicate n (CHR 0x00)), w\<lparr>entropy := xs\<rparr>))"

definition settle :: "endpoint \<Rightarrow> 'a reply \<Rightarrow> failure + 'a" where
  "settle ep r =
     (case r of
        Success d \<Rightarrow> Inr d
      | Failure st b \<Rightarrow> Inl (AxiosError ep (Some (st, b)))
      | NoReply \<Rightarrow> Inl (AxiosError ep None))"

text \<open>\<^verbatim>\<open>err.response?.status\<close>\<close>

definition response_status :: "failure \<Rightarrow> nat option" where
  "response_status err =
     (case err of AxiosError ep (Some (st, b)) \<Rightarrow> Some st | _ \<Rightarrow> None)"

text \<open>The reply the script holds for the next request to an endpoint.\<close>

definition next_reply :: "('q \<Rightarrow> 'a reply) list \<Rightarrow> 'q \<Rightarrow> 'a reply" where
  "next_reply script req = (case script of [] \<Rightarrow> NoReply | f # fs \<Rightarrow> f req)"

text \<open>\<^verbatim>\<open>axios.post(XERO_TOKEN, qs.stringify({...}))\<close>\<close>

definition post_token :: "token_request \<Rightarrow> world \<Rightarrow> (failure + tokens) \<times> world" where
  "post_token req w =
     (settle XERO_TOKEN (next_reply (token_replies w) req),
      w\<lparr>token_replies := tl (token_replies w), log := log w @ [TokenPost req]\<rparr>)"

text \<open>\<^verbatim>\<open>axios.get(XERO_CONN, { headers: { Authorization } }).then(r => r.data)\<close>\<close>

definition get_connections :: "string \<Rightarrow> world \<Rightarrow> (failure + org list option) \<times> world" where
  "get_connections auth w =
     (settle XERO_CONN (next_reply (conn_replies w) auth),
      w\<lparr>conn_replies := tl (conn_replies w), log := log w @ [ConnGet auth]\<rparr>)"

text \<open>\<^verbatim>\<open>axios({ method, url, ...config, headers })\<close>\<close>

definition axios :: "api_request \<Rightarrow> world \<Rightarrow> (failure + string) \<times> world" where
  "axios req w =
     (settle XERO_API (next_reply (api_replies w) req),
      w\<lparr>api_replies := tl (api_replies w), log := log w @ [ApiCall req]\<rparr>)"

subsection \<open>Credential cipher (\<^verbatim>\<open>encryptTokens\<close>, \<^verbatim>\<open>decryptTokens\<close>)\<close>

record sealed =
  encrypted :: string
  iv :: string
  tag :: string

text \<open>\<^verbatim>\<open>process.env.PREDITOR_TOKEN_KEY || process.env.PRODIT_TOKEN_KEY\<close>\<close>

definition ENC_KEY_B64 :: "env \<Rightarrow> string option" where
  "ENC_KEY_B64 e =
     (if truthy (PREDITOR_TOKEN_KEY e) then PREDITOR_TOKEN_KEY e else PRODIT_TOKEN_KEY e)"

definition encryptTokens :: "runtime \<Rightarrow> env \<Rightarrow> tokens \<Rightarrow> world \<Rightarrow> (failure + sealed) \<times> world" where
  "encryptTokens R e t w =
     (case ENC_KEY_B64 e of
        None \<Rightarrow> (Inl (Error ''Encryption key not configured (PRODIT_TOKEN_KEY)''), w)
      | Some k64 \<Rightarrow>
          if k64 = [] then (Inl (Error ''Encryption key not configured (PRODIT_TOKEN_KEY)''), w)
          else let key = b64_decode k64 in
            if length key \<noteq> 32
            then (Inl (Error ''Invalid encryption key length. Must be 32 bytes (base64 encoded).''), w)
            else (case randomBytes 12 w of (nonce, w') \<Rightarrow>
              (case createCipheriv key nonce of
                 Some err \<Rightarrow> (Inl err, w')
               | None \<Rightarrow>
                   (case gcm_encrypt R key nonce (json_stringify R t) of (ct, tg) \<Rightarrow>
                      (Inr \<lparr>encrypted = b64_encode ct, iv = b64_encode nonce,
                            tag = b64_encode tg\<rparr>, w')))))"

definition decryptTokens :: "runtime \<Rightarrow> env \<Rightarrow> string \<Rightarrow> string \<Rightarrow> string \<Rightarrow> failure + tokens" where
  "decryptTokens R e enc ivs tags =
     (case ENC_KEY_B64 e of
        None \<Rightarrow> Inl (Error ''Encryption key not configured (PRODIT_TOKEN_KEY)'')
      | Some k64 \<Rightarrow>
          if k64 = [] then Inl (Error ''Encryption key not configured (PRODIT_TOKEN_KEY)'')
          else let key = b64_decode k64 in
            (case createDecipheriv key (b64_decode ivs) of
               Some err \<Rightarrow> Inl err
             | None \<Rightarrow>
                 (case setAuthTag (b64_decode tags) of
                    Some err \<Rightarrow> Inl err
                  | None \<Rightarrow>
                      (case gcm_decrypt R key (b64_decode ivs) (b64_decode tags)
                              (b64_decode enc) of
                         None \<Rightarrow>
                           Inl (CryptoError ''Unsupported state or unable to authenticate data'')
                       | Some pt \<Rightarrow>
                           (case json_parse R pt of
                              None \<Rightarrow> Inl SyntaxError
                            | Some t \<Rightarrow> Inr t)))))"

subsection \<open>Credential store (table \<^verbatim>\<open>xero_connections\<close>)\<close>

text \<open>
  The table has the constraint \<^verbatim>\<open>UNIQUE(user_id, tenant_id)\<close>. \<^verbatim>\<open>CURRENT_TIMESTAMP\<close>
  is the \<open>clock\<close>, which every write advances; \<open>next_id\<close> is the \<^verbatim>\<open>SERIAL\<close> sequence,
  which an \<^verbatim>\<open>INSERT\<close> advances whether or not it ends in the conflict branch.
\<close>

definition has_key :: "nat \<Rightarrow> string \<Rightarrow> row \<Rightarrow> bool" where
  "has_key u t r \<longleftrightarrow> user_id r = u \<and> tenant_id r = t"

definition unique_keys :: "row list \<Rightarrow> bool" where
  "unique_keys rs \<longleftrightarrow> distinct (map (\<lambda>r. (user_id r, tenant_id r)) rs)"

record summary =
  id_s :: nat
  tenant_id_s :: string
  tenant_name_s :: string

text \<open>
  The statement \<^verbatim>\<open>INSERT ... ON CONFLICT (user_id, tenant_id) DO UPDATE SET ...
  RETURNING id, tenant_id, tenant_name\<close> of \<^verbatim>\<open>saveXeroConnection\<close>.
\<close>

definition insert_on_conflict ::
  "nat \<Rightarrow> string \<Rightarrow> string \<Rightarrow> sealed \<Rightarrow> bool \<Rightarrow> world \<Rightarrow> summary \<times> world" where
  "insert_on_conflict userId tenantId tenantName s isSystemConnection w =
     (case find (has_key userId tenantId) (rows w) of
        Some old \<Rightarrow>
          (\<lparr>id_s = row_id old, tenant_id_s = tenant_id old, tenant_name_s = tenantName\<rparr>,
           w\<lparr>rows := map (\<lambda>r. if has_key userId tenantId r
                               then r\<lparr>tenant_name := tenantName,
                                      encrypted_tokens := encrypted s,
                                      encryption_iv := iv s,
                                      encryption_tag := tag s,
                                      is_system_connection := isSystemConnection,
                                      last_synced := clock w\<rparr>
                               else r) (rows w),
             next_id := next_id w + 1,
             clock := clock w + 1,
             log := log w @ [DbUpsert userId tenantId]\<rparr>)
      | None \<Rightarrow>
          (\<lparr>id_s = next_id w, tenant_id_s = tenantId, tenant_name_s = tenantName\<rparr>,
           w\<lparr>rows := rows w @
                     [\<lparr>row_id = next_id w, user_id = userId, tenant_id = tenantId,
                       tenant_name = tenantName, encrypted_tokens = encrypted s,
                       encryption_iv = iv s, encryption_tag = tag s,
                       is_system_connection = isSystemConnection,
                       created_at = clock w, last_synced = clock w\<rparr>],
             next_id := next_id w + 1,
             clock := clock w + 1,
             log := log w @ [DbUpsert userId tenantId]\<rparr>))"

definition saveXeroConnection ::
  "runtime \<Rightarrow> env \<Rightarrow> nat \<Rightarrow> string \<Rightarrow> string \<Rightarrow> tokens \<Rightarrow> bool \<Rightarrow> world
     \<Rightarrow> (failure + summary) \<times> world" where
  "saveXeroConnection R e userId tenantId tenantName t isSystemConnection w =
     (case encryptTokens R e t w of
        (Inl err, w1) \<Rightarrow> (Inl err, w1)
      | (Inr s, w1) \<Rightarrow>
          (case insert_on_conflict userId tenantId tenantName s isSystemConnection w1 of
             (returned, w2) \<Rightarrow> (Inr returned, w2)))"

text \<open>
  \<^verbatim>\<open>ORDER BY last_synced DESC LIMIT 1\<close>: a row with the greatest \<open>last_synced\<close> (the
  first of them in table order, where SQL leaves the choice open).
\<close>

fun most_recent :: "row list \<Rightarrow> row option" where
  "most_recent [] = None"
| "most_recent (r # rs) =
     (case most_recent rs of
        None \<Rightarrow> Some r
      | Some m \<Rightarrow> if last_synced r < last_synced m then Some m else Some r)"

record connection =
  id_c :: nat
  userId :: nat
  tenantId :: string
  tenantName :: string
  tokens_c :: tokens
  lastSynced :: nat

definition read_connection :: "runtime \<Rightarrow> env \<Rightarrow> row option \<Rightarrow> failure + connection option" where
  "read_connection R e found =
     (case found of
        None \<Rightarrow> Inr None
      | Some r \<Rightarrow>
          (case decryptTokens R e (encrypted_tokens r) (encryption_iv r) (encryption_tag r) of
             Inl err \<Rightarrow> Inl err
           | Inr t \<Rightarrow>
               Inr (Some \<lparr>id_c = row_id r, userId = user_id r, tenantId = tenant_id r,
                          tenantName = tenant_name r, tokens_c = t,
                          lastSynced = last_synced r\<rparr>)))"

definition getXeroConnection ::
  "runtime \<Rightarrow> env \<Rightarrow> nat \<Rightarrow> string option \<Rightarrow> world \<Rightarrow> failure + connection option" where
  "getXeroConnection R e uid tid w =
     read_connection R e
       (most_recent
          (if truthy tid
           then filter (\<lambda>r. user_id r = uid \<and> Some (tenant_id r) = tid) (rows w)
           else filter (\<lambda>r. user_id r = uid) (rows w)))"

definition getSystemXeroConnection :: "runtime \<Rightarrow> env \<Rightarrow> world \<Rightarrow> failure + connection option" where
  "getSystemXeroConnection R e w =
     read_connection R e (most_recent (filter is_system_connection (rows w)))"

record listing =
  id_l :: nat
  tenant_id_l :: string
  tenant_name_l :: string
  last_synced_l :: nat
  created_at_l :: nat

definition getAllXeroConnections :: "nat \<Rightarrow> world \<Rightarrow> listing list" where
  "getAllXeroConnections uid w =
     map (\<lambda>r. \<lparr>id_l = row_id r, tenant_id_l = tenant_id r, tenant_name_l = tenant_name r,
               last_synced_l = last_synced r, created_at_l = created_at r\<rparr>)
       (sort_key (\<lambda>r. - int (last_synced r)) (filter (\<lambda>r. user_id r = uid) (rows w)))"

definition deleteXeroConnection :: "nat \<Rightarrow> string \<Rightarrow> world \<Rightarrow> bool \<times> world" where
  "deleteXeroConnection uid tid w =
     (\<exists>r \<in> set (rows w). has_key uid tid r,
      w\<lparr>rows := filter (\<lambda>r. \<not> has_key uid tid r) (rows w)\<rparr>)"

text \<open>
  The statement \<^verbatim>\<open>UPDATE xero_connections SET ... WHERE user_id = $4 AND tenant_id = $5\<close>
  of \<^verbatim>\<open>updateXeroTokens\<close>.
\<close>

definition update_tokens :: "nat \<Rightarrow> string \<Rightarrow> sealed \<Rightarrow> world \<Rightarrow> world" where
  "update_tokens uid tid s w =
     w\<lparr>rows := map (\<lambda>r. if has_key uid tid r
                         then r\<lparr>encrypted_tokens := encrypted s,
                                encryption_iv := iv s,
                                encryption_tag := tag s,
                                last_synced := clock w\<rparr>
                         else r) (rows w),
       clock := clock w + 1,
       log := log w @ [DbUpdate uid tid]\<rparr>"

definition updateXeroTokens ::
  "runtime \<Rightarrow> env \<Rightarrow> nat \<Rightarrow> string \<Rightarrow> tokens \<Rightarrow> world \<Rightarrow> (failure + unit) \<times> world" where
  "updateXeroTokens R e uid tid t w =
     (case encryptTokens R e t w of
        (Inl err, w1) \<Rightarrow> (Inl err, w1)
      | (Inr s, w1) \<Rightarrow> (Inr (), update_tokens uid tid s w1))"

subsection \<open>Request pipeline (\<^verbatim>\<open>ensureValidToken\<close>, \<^verbatim>\<open>refreshAccessToken\<close>, \<^verbatim>\<open>xeroRequest\<close>)\<close>

record tokenInfo =
  accessToken :: "string option"
  refreshToken :: "string option"
  tenantId_t :: string
  connectionUserId :: nat

definition ensureValidToken ::
  "runtime \<Rightarrow> env \<Rightarrow> nat \<Rightarrow> bool \<Rightarrow> string option \<Rightarrow> world \<Rightarrow> failure + tokenInfo" where
  "ensureValidToken R e uid isAdmin tid w =
     (case (if isAdmin then getXeroConnection R e uid tid w else getSystemXeroConnection R e w) of
        Inl err \<Rightarrow> Inl err
      | Inr None \<Rightarrow>
          Inl (Error (if isAdmin
                      then ''No Xero connection found. Please connect your Xero account.''
                      else ''System Xero connection not configured. Please contact your administrator.''))
      | Inr (Some c) \<Rightarrow>
          Inr \<lparr>accessToken = access_token (tokens_c c),
               refreshToken = refresh_token (tokens_c c),
               tenantId_t = tenantId c,
               connectionUserId = userId c\<rparr>)"

definition refreshAccessToken ::
  "runtime \<Rightarrow> env \<Rightarrow> nat \<Rightarrow> string \<Rightarrow> string option \<Rightarrow> world
     \<Rightarrow> (failure + string option) \<times> world" where
  "refreshAccessToken R e uid tid rt w =
     (case post_token (RefreshToken rt) w of
        (Inl err, w1) \<Rightarrow> (Inl err, w1)
      | (Inr newTokens, w1) \<Rightarrow>
          (case updateXeroTokens R e uid tid newTokens w1 of
             (Inl err, w2) \<Rightarrow> (Inl err, w2)
           | (Inr u, w2) \<Rightarrow> (Inr (access_token newTokens), w2)))"

text \<open>The template string \<^verbatim>\<open>`Bearer ${accessToken}`\<close>.\<close>

definition bearer :: "string option \<Rightarrow> string" where
  "bearer t = ''Bearer '' @ (case t of None \<Rightarrow> ''undefined'' | Some s \<Rightarrow> s)"

text \<open>
  \<^verbatim>\<open>makeRequest\<close>, the closure of \<^verbatim>\<open>xeroRequest\<close>. Of \<^verbatim>\<open>config\<close> the model keeps the
  request body; its callers put no \<^verbatim>\<open>Authorization\<close> header in \<^verbatim>\<open>config.headers\<close>.
\<close>

definition api_request_for ::
  "tokenInfo \<Rightarrow> string \<Rightarrow> string \<Rightarrow> string \<Rightarrow> string option \<Rightarrow> api_request" where
  "api_request_for ti meth urlPath config at =
     \<lparr>http_method = meth, url = ''https://api.xero.com/api.xro/2.0'' @ urlPath,
      authorization = bearer at, xero_tenant_id = tenantId_t ti, body = config\<rparr>"

definition makeRequest ::
  "tokenInfo \<Rightarrow> string \<Rightarrow> string \<Rightarrow> string \<Rightarrow> string option \<Rightarrow> world
     \<Rightarrow> (failure + string) \<times> world" where
  "makeRequest ti meth urlPath config at w = axios (api_request_for ti meth urlPath config at) w"

definition xeroRequest ::
  "runtime \<Rightarrow> env \<Rightarrow> nat \<Rightarrow> bool \<Rightarrow> string \<Rightarrow> string \<Rightarrow> string \<Rightarrow> world
     \<Rightarrow> (failure + string) \<times> world" where
  "xeroRequest R e uid isAdmin meth urlPath config w =
     (case ensureValidToken R e uid isAdmin None w of
        Inl err \<Rightarrow> (Inl err, w)
      | Inr ti \<Rightarrow>
          (case makeRequest ti meth urlPath config (accessToken ti) w of
             (Inr resp, w1) \<Rightarrow> (Inr resp, w1)
           | (Inl err, w1) \<Rightarrow>
               if response_status err = Some 401 \<and> truthy (refreshToken ti)
               then (case refreshAccessToken R e (connectionUserId ti) (tenantId_t ti)
                            (refreshToken ti) w1 of
                       (Inl err2, w2) \<Rightarrow> (Inl err2, w2)
                     | (Inr newAccessToken, w2) \<Rightarrow>
                         makeRequest ti meth urlPath config newAccessToken w2)
               else (Inl err, w1)))"

subsection \<open>OAuth callback (\<^verbatim>\<open>app.get('/callback')\<close>)\<close>

text \<open>
  \<^verbatim>\<open>Array.prototype.sort\<close> with a comparator is stable: an element moves in front of
  another only when the comparator is positive for the pair in their present order.
\<close>

fun insert_by :: "('a \<Rightarrow> 'a \<Rightarrow> int) \<Rightarrow> 'a \<Rightarrow> 'a list \<Rightarrow> 'a list" where
  "insert_by cmp x [] = [x]"
| "insert_by cmp x (y # ys) =
     (if cmp x y \<le> 0 then x # y # ys else y # insert_by cmp x ys)"

definition js_sort :: "('a \<Rightarrow> 'a \<Rightarrow> int) \<Rightarrow> 'a list \<Rightarrow> 'a list" where
  "js_sort cmp xs = foldr (insert_by cmp) xs []"

text \<open>
  \<^verbatim>\<open>(a, b) => new Date(b.createdDateUtc) - new Date(a.createdDateUtc)\<close>, with
  \<open>createdDateUtc\<close> the time value that \<^verbatim>\<open>new Date\<close> reads from the field.
\<close>

definition newest_first :: "org \<Rightarrow> org \<Rightarrow> int" where
  "newest_first a b = createdDateUtc b - createdDateUtc a"

datatype http_response =
    Redirect string
  | NoOrganizations
  | ConnectionFailed failure

fun status_of :: "http_response \<Rightarrow> nat" where
  "status_of (Redirect l) = 302"
| "status_of NoOrganizations = 400"
| "status_of (ConnectionFailed err) = 500"

text \<open>
  The request as the handler sees it: the query parameters \<^verbatim>\<open>code\<close> and \<^verbatim>\<open>state\<close>,
  \<^verbatim>\<open>req.session.userId\<close>, and \<^verbatim>\<open>req.isAdmin\<close> as the middleware \<^verbatim>\<open>attachUser\<close> set it.
  \<^verbatim>\<open>attachUser\<close> also sets \<^verbatim>\<open>req.userId\<close> to the session's user id when that is truthy.
\<close>

record callback_request =
  code_q :: "string option"
  state_q :: "string option"
  session_userId :: "nat option"
  isAdmin_q :: bool

definition state_rejected :: "callback_request \<Rightarrow> bool" where
  "state_rejected q \<longleftrightarrow>
     \<not> truthy (state_q q) \<or>
     (case session_userId q of
        None \<Rightarrow> True
      | Some uid \<Rightarrow> uid = 0 \<or> state_q q \<noteq> Some (toString uid))"

definition callback :: "runtime \<Rightarrow> env \<Rightarrow> callback_request \<Rightarrow> world \<Rightarrow> http_response \<times> world" where
  "callback R e q w =
     (case (if state_rejected q then None else session_userId q) of
        None \<Rightarrow> (ConnectionFailed (Error ''Invalid state parameter''), w)
      | Some req_userId \<Rightarrow>
        (case post_token (AuthorizationCode (code_q q) (PUBLIC_URL e @ ''/callback'')) w of
           (Inl err, w1) \<Rightarrow> (ConnectionFailed err, w1)
         | (Inr t, w1) \<Rightarrow>
             (case get_connections (bearer (access_token t)) w1 of
                (Inl err, w2) \<Rightarrow> (ConnectionFailed err, w2)
              | (Inr None, w2) \<Rightarrow> (NoOrganizations, w2)
              | (Inr (Some conns), w2) \<Rightarrow>
                  if length conns = 0 then (NoOrganizations, w2)
                  else
                    (case js_sort newest_first conns of
                       [] \<Rightarrow> (ConnectionFailed TypeError, w2)
                     | chosen # others \<Rightarrow>
                         (case saveXeroConnection R e req_userId
                                 (tenantId_o chosen) (tenantName_o chosen) t (isAdmin_q q) w2 of
                            (Inl err, w3) \<Rightarrow> (ConnectionFailed err, w3)
                          | (Inr saved, w3) \<Rightarrow>
                              (Redirect (if isAdmin_q q then ''/admin?connected=true''
                                         else ''/?connected=true''), w3))))))"

subsection \<open>Sequences of operations\<close>

text \<open>
  The operations that write the table: the OAuth callback (initial save), a pipeline
  call (update on refresh) and the explicit disconnect.
\<close>

datatype operation =
    Callback callback_request
  | Request nat bool string string string
  | Disconnect nat string

fun step :: "runtime \<Rightarrow> env \<Rightarrow> world \<Rightarrow> operation \<Rightarrow> world" where
  "step R e w (Callback q) = snd (callback R e q w)"
| "step R e w (Request uid isAdmin meth urlPath config) =
     snd (xeroRequest R e uid isAdmin meth urlPath config w)"
| "step R e w (Disconnect uid tid) = snd (deleteXeroConnection uid tid w)"

definition run :: "runtime \<Rightarrow> env \<Rightarrow> operation list \<Rightarrow> world \<Rightarrow> world" where
  "run R e ops w = foldl (step R e) w ops"

definition bundle_of :: "runtime \<Rightarrow> env \<Rightarrow> row \<Rightarrow> failure + tokens" where
  "bundle_of R e r =
     decryptTokens R e (encrypted_tokens r) (encryption_iv r) (encryption_tag r)"

definition has_pair :: "tokens \<Rightarrow> bool" where
  "has_pair t \<longleftrightarrow> access_token t \<noteq> None \<and> refresh_token t \<noteq> None"

definition all_paired :: "runtime \<Rightarrow> env \<Rightarrow> world \<Rightarrow> bool" where
  "all_paired R e w \<longleftrightarrow>
     list_all (\<lambda>r. case bundle_of R e r of Inl err \<Rightarrow> False | Inr t \<Rightarrow> has_pair t) (rows w)"

text \<open>Every token response the provider will give carries both tokens (and survives JSON).\<close>

definition provider_pairs :: "runtime \<Rightarrow> world \<Rightarrow> bool" where
  "provider_pairs R w \<longleftrightarrow>
     (\<forall>f \<in> set (token_replies w). \<forall>req t. f req = Success t \<longrightarrow> has_pair t \<and> json_faithful R t)"

text \<open>The key bytes that both cipher operations decode from the environment.\<close>

definition key_bytes :: "env \<Rightarrow> bytes option" where
  "key_bytes e =
     (case ENC_KEY_B64 e of
        None \<Rightarrow> None
      | Some k64 \<Rightarrow> if k64 = [] then None else Some (b64_decode k64))"

definition key_configured :: "env \<Rightarrow> bytes \<Rightarrow> bool" where
  "key_configured e key \<longleftrightarrow> key_bytes e = Some key \<and> length key = 32"

subsection \<open>A small runtime for the worked examples\<close>

text \<open>
  The examples below run the code on a runtime that is simple enough to evaluate: a
  printer and reader of flat JSON objects whose strings need no escape, and a cipher
  that masks each byte and authenticates with a 16-byte tag holding the parity of the
  nonce and the ciphertext, of which it checks as many leading bytes as it is given. It
  satisfies the contracts above.
\<close>

definition dq :: char where
  "dq = CHR 0x22"

definition quoted :: "string \<Rightarrow> string" where
  "quoted s = dq # s @ [dq]"

definition member_text :: "string \<Rightarrow> string \<Rightarrow> string" where
  "member_text k v = quoted k @ '':'' @ v"

fun join_commas :: "string list \<Rightarrow> string" where
  "join_commas [] = []"
| "join_commas [x] = x"
| "join_commas (x # xs) = x @ '','' @ join_commas xs"

definition flat_stringify :: "tokens \<Rightarrow> string" where
  "flat_stringify t =
     ''{'' @ join_commas (List.map_filter id
       [map_option (\<lambda>s. member_text ''access_token'' (quoted s)) (access_token t),
        map_option (\<lambda>s. member_text ''refresh_token'' (quoted s)) (refresh_token t),
        map_option (\<lambda>n. member_text ''expires_in'' (toString n)) (expires_in t)]) @ ''}''"

fun strip_prefix :: "string \<Rightarrow> string \<Rightarrow> string option" where
  "strip_prefix [] s = Some s"
| "strip_prefix (p # ps) [] = None"
| "strip_prefix (p # ps) (c # cs) = (if p = c then strip_prefix ps cs else None)"

fun until_quote :: "string \<Rightarrow> (string \<times> string) option" where
  "until_quote [] = None"
| "until_quote (c # cs) =
     (if c = dq then Some ([], cs)
      else if c = CHR 0x5C then None
      else map_option (\<lambda>(v, r). (c # v, r)) (until_quote cs))"

definition skip_comma :: "string \<Rightarrow> string" where
  "skip_comma s = (case s of [] \<Rightarrow> [] | c # cs \<Rightarrow> if c = CHR '','' then cs else s)"

definition string_member :: "string \<Rightarrow> string \<Rightarrow> (string option \<times> string) option" where
  "string_member k s =
     (case strip_prefix (member_text k [dq]) s of
        None \<Rightarrow> Some (None, s)
      | Some r \<Rightarrow>
          (case until_quote r of
             None \<Rightarrow> None
           | Some (v, r') \<Rightarrow> Some (Some v, skip_comma r')))"

definition is_digit :: "char \<Rightarrow> bool" where
  "is_digit c \<longleftrightarrow> c \<in> set ''0123456789''"

definition nat_of_digits :: "string \<Rightarrow> nat" where
  "nat_of_digits ds =
     foldl (\<lambda>n c. 10 * n + (case index_of c ''0123456789'' of None \<Rightarrow> 0 | Some d \<Rightarrow> d)) 0 ds"

definition number_member :: "string \<Rightarrow> string \<Rightarrow> (nat option \<times> string) option" where
  "number_member k s =
     (case strip_prefix (member_text k []) s of
        None \<Rightarrow> Some (None, s)
      | Some r \<Rightarrow>
          if takeWhile is_digit r = [] then None
          else Some (Some (nat_of_digits (takeWhile is_digit r)),
                     skip_comma (dropWhile is_digit r)))"

definition flat_parse :: "string \<Rightarrow> tokens option" where
  "flat_parse s =
     (case strip_prefix ''{'' s of
        None \<Rightarrow> None
      | Some s1 \<Rightarrow>
          (case string_member ''access_token'' s1 of
             None \<Rightarrow> None
           | Some (a, s2) \<Rightarrow>
               (case string_member ''refresh_token'' s2 of
                  None \<Rightarrow> None
                | Some (r, s3) \<Rightarrow>
                    (case number_member ''expires_in'' s3 of
                       None \<Rightarrow> None
                     | Some (n, s4) \<Rightarrow>
                         if s4 = ''}''
                         then Some \<lparr>access_token = a, refresh_token = r, expires_in = n\<rparr>
                         else None))))"

definition xor_char :: "char \<Rightarrow> char \<Rightarrow> char" where
  "xor_char a b =
     Char (digit0 a \<noteq> digit0 b) (digit1 a \<noteq> digit1 b) (digit2 a \<noteq> digit2 b)
          (digit3 a \<noteq> digit3 b) (digit4 a \<noteq> digit4 b) (digit5 a \<noteq> digit5 b)
          (digit6 a \<noteq> digit6 b) (digit7 a \<noteq> digit7 b)"

definition mask_of :: "bytes \<Rightarrow> bytes \<Rightarrow> char" where
  "mask_of key nonce = foldr xor_char (key @ nonce) (CHR 0x00)"

definition parity :: "bool list \<Rightarrow> bool" where
  "parity bits \<longleftrightarrow> odd (length (filter id bits))"

definition parity_tag :: "bytes \<Rightarrow> bytes \<Rightarrow> bytes \<Rightarrow> bytes" where
  "parity_tag key nonce ct =
     (if parity (bits_of_bytes (nonce @ ct)) then CHR 0xFF else CHR 0x00)
       # take 15 (key @ replicate 15 (CHR 0x00))"

definition mask_seal :: "bytes \<Rightarrow> bytes \<Rightarrow> bytes \<Rightarrow> bytes \<times> bytes" where
  "mask_seal key nonce pt =
     (map (xor_char (mask_of key nonce)) pt,
      parity_tag key nonce (map (xor_char (mask_of key nonce)) pt))"

definition mask_open :: "bytes \<Rightarrow> bytes \<Rightarrow> bytes \<Rightarrow> bytes \<Rightarrow> bytes option" where
  "mask_open key nonce tg ct =
     (if tg = take (length tg) (parity_tag key nonce ct)
      then Some (map (xor_char (mask_of key nonce)) ct)
      else None)"

definition sample_runtime :: runtime where
  "sample_runtime =
     \<lparr>json_stringify = flat_stringify, json_parse = flat_parse,
      gcm_encrypt = mask_seal, gcm_decrypt = mask_open\<rparr>"

definition sample_key :: bytes where
  "sample_key = ''0123456789abcdef0123456789abcdef''"

definition sample_env :: env where
  "sample_env =
     \<lparr>PREDITOR_TOKEN_KEY = None,
      PRODIT_TOKEN_KEY = Some ''MDEyMzQ1Njc4OWFiY2RlZjAxMjM0NTY3ODlhYmNkZWY='',
      PUBLIC_URL = ''http://localhost:3000''\<rparr>"

definition empty_world :: world where
  "empty_world =
     \<lparr>rows = [], next_id = 1, clock = 0, entropy = [], token_replies = [],
      conn_replies = [], api_replies = [], log = []\<rparr>"

definition sample_tokens :: tokens where
  "sample_tokens = \<lparr>access_token = Some ''at1'', refresh_token = Some ''rt1'', expires_in = Some 1800\<rparr>"

definition fresh_tokens :: tokens where
  "fresh_tokens = \<lparr>access_token = Some ''at2'', refresh_token = Some ''rt2'', expires_in = Some 1800\<rparr>"

definition lone_tokens :: tokens where
  "lone_tokens = \<lparr>access_token = Some ''at3'', refresh_token = None, expires_in = Some 1800\<rparr>"

subsection \<open>Example data\<close>

definition short_key_env :: env where
  "short_key_env =
     \<lparr>PREDITOR_TOKEN_KEY = None, PRODIT_TOKEN_KEY = Some ''MDEyMzQ1Njc4OWFiY2RlZg=='',
      PUBLIC_URL = ''http://localhost:3000''\<rparr>"

definition no_key_env :: env where
  "no_key_env =
     \<lparr>PREDITOR_TOKEN_KEY = None, PRODIT_TOKEN_KEY = None,
      PUBLIC_URL = ''http://localhost:3000''\<rparr>"

definition entropy_world :: world where
  "entropy_world =
     empty_world\<lparr>entropy := [''nonce-000001'', ''nonce-000002'', ''nonce-000003'']\<rparr>"

text \<open>What \<^verbatim>\<open>encryptTokens\<close> returns for \<open>sample_tokens\<close> in \<open>entropy_world\<close>.\<close>

definition sample_sealed :: sealed where
  "sample_sealed =
     \<lparr>encrypted = ''PmckJiYgNjYaMSouICtnf2ckMXRnaWc3ICM3IDYtGjEqLiArZ39nNzF0Z2lnID01LDcgNhosK2d/dH11dTg='',
      iv = ''bm9uY2UtMDAwMDAx'', tag = ''ADAxMjM0NTY3ODlhYmNkZQ==''\<rparr>"

text \<open>
  Tampering with a sealed bundle: the stored strings \<open>enc'\<close>, \<open>ivs'\<close>, \<open>tags'\<close> decode
  to the bytes of \<open>s\<close> with bit \<open>i\<close> of the ciphertext, of the iv or of the tag flipped.
\<close>

definition one_bit_apart :: "nat \<Rightarrow> bytes \<Rightarrow> bytes \<Rightarrow> bool" where
  "one_bit_apart i x x' \<longleftrightarrow> i < 8 * length x \<and> x' = flip_nth_bit i x"

definition tampered :: "nat \<Rightarrow> sealed \<Rightarrow> string \<Rightarrow> string \<Rightarrow> string \<Rightarrow> bool" where
  "tampered i s enc' ivs' tags' \<longleftrightarrow>
     one_bit_apart i (b64_decode (encrypted s)) (b64_decode enc') \<and>
       b64_decode ivs' = b64_decode (iv s) \<and> b64_decode tags' = b64_decode (tag s)
     \<or> b64_decode enc' = b64_decode (encrypted s) \<and>
       one_bit_apart i (b64_decode (iv s)) (b64_decode ivs') \<and>
       b64_decode tags' = b64_decode (tag s)
     \<or> b64_decode enc' = b64_decode (encrypted s) \<and>
       b64_decode ivs' = b64_decode (iv s) \<and>
       one_bit_apart i (b64_decode (tag s)) (b64_decode tags')"

subsection \<open>Auxiliary notions\<close>

definition row_key :: "row \<Rightarrow> nat \<times> string" where
  "row_key r = (user_id r, tenant_id r)"

definition january_org :: org where
  "january_org = \<lparr>tenantId_o = ''tenant-jan'', tenantName_o = ''January Ltd'',
                   createdDateUtc = 1704067200000\<rparr>"

definition june_org :: org where
  "june_org = \<lparr>tenantId_o = ''tenant-jun'', tenantName_o = ''June Ltd'',
                createdDateUtc = 1717200000000\<rparr>"

text \<open>A provider that answers one grant exchange with \<open>t\<close> and one listing with \<open>conns\<close>.\<close>

definition grant_world :: "tokens \<Rightarrow> org list \<Rightarrow> world" where
  "grant_world t conns =
     entropy_world\<lparr>token_replies := [\<lambda>req. Success t],
                   conn_replies := [\<lambda>auth. Success (Some conns)]\<rparr>"

definition user7_callback :: "string \<Rightarrow> callback_request" where
  "user7_callback st =
     \<lparr>code_q = Some ''code-1'', state_q = Some st, session_userId = Some 7, isAdmin_q = True\<rparr>"

text \<open>
  A world in which user 7 (an administrator) has saved bundle \<open>t\<close> for tenant
  \<^verbatim>\<open>tenant-1\<close>, with the given scripts for the API and the token endpoint.
\<close>

definition stored_world ::
  "tokens \<Rightarrow> (api_request \<Rightarrow> string reply) list \<Rightarrow> (token_request \<Rightarrow> tokens reply) list \<Rightarrow> world" where
  "stored_world t api tok =
     (snd (saveXeroConnection sample_runtime sample_env 7 ''tenant-1'' ''Acme'' t True
             entropy_world))\<lparr>api_replies := api, token_replies := tok\<rparr>"

definition is_token_post :: "event \<Rightarrow> bool" where
  "is_token_post ev = (case ev of TokenPost req \<Rightarrow> True | _ \<Rightarrow> False)"

definition paired_row :: "runtime \<Rightarrow> env \<Rightarrow> row \<Rightarrow> bool" where
  "paired_row R e r = (case bundle_of R e r of Inl err \<Rightarrow> False | Inr t \<Rightarrow> has_pair t)"

text \<open>A provider for a grant exchange, a listing, a 401 and a refresh.\<close>

definition refresh_world :: world where
  "refresh_world =
     entropy_world\<lparr>token_replies := [\<lambda>req. Success sample_tokens, \<lambda>req. Success fresh_tokens],
                   conn_replies := [\<lambda>auth. Success (Some [june_org])],
                   api_replies := [\<lambda>req. Failure 401 ''expired'', \<lambda>req. Success ''{Items:[]}'']\<rparr>"

section \<open>Properties\<close>

subsection \<open>Base64 decodes what it encoded\<close>

lemma alphabet_all:
  "list_all (\<lambda>n. unbase64 (b64_alphabet ! n) = Some n \<and> b64_alphabet ! n \<noteq> CHR ''='') [0..<64]"
  by code_simp

lemma unbase64_alphabet: "n < 64 \<Longrightarrow> unbase64 (b64_alphabet ! n) = Some n"
  using alphabet_all by (simp add: list_all_iff)

lemma alphabet_not_pad: "n < 64 \<Longrightarrow> b64_alphabet ! n \<noteq> CHR ''=''"
  using alphabet_all by (simp add: list_all_iff)

lemma nat_of_bits6_lt: "nat_of_bits [a, b, c, d, e, f] < 64"
  by (simp add: nat_of_bits_def)

lemma bits_of_sextet_inverse: "bits_of_sextet (nat_of_bits [a, b, c, d, e, f]) = [a, b, c, d, e, f]"
  by (cases a; cases b; cases c; cases d; cases e; cases f; simp add: nat_of_bits_def bits_of_sextet_def)

lemma replicate_small:
  "replicate 5 x = [x, x, x, x, x]"
  "replicate 4 x = [x, x, x, x]"
  "replicate 3 x = [x, x, x]"
  "replicate 2 x = [x, x]"
  by (simp_all add: numeral_eq_Suc)

lemma sextets_lt: "n \<in> set (sextets_of_bits bits) \<Longrightarrow> n < 64"
proof (induction bits arbitrary: n rule: sextets_of_bits.induct)
  case 1
  then show ?case by simp
next
  case (2 a b c d e f rest)
  then show ?case using nat_of_bits6_lt by auto
qed (auto simp: nat_of_bits_def)

lemma sextets_bits:
  "concat (map bits_of_sextet (sextets_of_bits bits))
     = bits @ replicate ((6 - length bits mod 6) mod 6) False"
proof (induction bits rule: sextets_of_bits.induct)
  case 1
  then show ?case by simp
next
  case (2 a b c d e f rest)
  then show ?case by (simp add: bits_of_sextet_inverse del: replicate.simps)
qed (simp_all add: nat_of_bits_def bits_of_sextet_def replicate_small)

lemma bytes_of_bits_short: "length extra < 8 \<Longrightarrow> bytes_of_bits extra = []"
  by (induction extra rule: bytes_of_bits.induct) simp_all

lemma bytes_of_bits_append:
  "length extra < 8 \<Longrightarrow> bytes_of_bits (bits_of_bytes bs @ extra) = bs"
proof (induction bs)
  case Nil
  then show ?case by (simp add: bits_of_bytes_def bytes_of_bits_short)
next
  case (Cons c bs)
  then show ?case by (cases c) (simp add: bits_of_bytes_def bits_of_char_def)
qed

lemma map_filter_unbase64:
  "\<forall>n \<in> set ns. n < 64 \<Longrightarrow> List.map_filter unbase64 (map (\<lambda>n. b64_alphabet ! n) ns) = ns"
  by (induction ns) (simp_all add: List.map_filter_simps unbase64_alphabet)

lemma takeWhile_encoded:
  "\<forall>n \<in> set ns. n < 64 \<Longrightarrow>
   takeWhile (\<lambda>c. c \<noteq> CHR ''='') (map (\<lambda>n. b64_alphabet ! n) ns @ replicate k (CHR ''=''))
     = map (\<lambda>n. b64_alphabet ! n) ns"
proof (induction ns)
  case Nil
  show ?case by (cases k) simp_all
next
  case (Cons n ns)
  then show ?case by (simp add: alphabet_not_pad)
qed

lemma b64_roundtrip: "b64_decode (b64_encode bs) = bs"
proof -
  let ?ns = "sextets_of_bits (bits_of_bytes bs)"
  have lt: "\<forall>n \<in> set ?ns. n < 64" using sextets_lt by blast
  have "length (replicate ((6 - length (bits_of_bytes bs) mod 6) mod 6) False) < 8" by simp
  then show ?thesis
    unfolding b64_decode_def b64_encode_def
    by (simp only: takeWhile_encoded[OF lt] map_filter_unbase64[OF lt] sextets_bits bytes_of_bits_append)
qed

subsection \<open>The cipher: what was sealed opens\<close>

lemma key_configured_enc:
  "key_configured e key \<Longrightarrow> \<exists>k64. ENC_KEY_B64 e = Some k64 \<and> k64 \<noteq> [] \<and> b64_decode k64 = key \<and> length key = 32"
  by (auto simp: key_configured_def key_bytes_def split: option.splits if_splits)

lemma length_randomBytes: "length (fst (randomBytes n w)) = n"
  by (auto simp: randomBytes_def min_def split: list.splits)

lemma encryptTokens_ok:
  assumes "key_configured e key"
  shows "encryptTokens R e t w =
     (Inr \<lparr>encrypted = b64_encode (fst (gcm_encrypt R key (fst (randomBytes 12 w)) (json_stringify R t))),
           iv = b64_encode (fst (randomBytes 12 w)),
           tag = b64_encode (snd (gcm_encrypt R key (fst (randomBytes 12 w)) (json_stringify R t)))\<rparr>,
      snd (randomBytes 12 w))"
proof -
  have "fst (randomBytes 12 w) \<noteq> []"
    using length_randomBytes[of 12 w] by auto
  with key_configured_enc[OF assms] show ?thesis
    by (auto simp: encryptTokens_def createCipheriv_def Let_def split: prod.splits)
qed

lemma decrypt_sealed:
  assumes "key_configured e key" "gcm_correct R key" "json_faithful R t"
    and "length nonce = 12"
  shows "decryptTokens R e (b64_encode (fst (gcm_encrypt R key nonce (json_stringify R t))))
           (b64_encode nonce)
           (b64_encode (snd (gcm_encrypt R key nonce (json_stringify R t)))) = Inr t"
proof -
  from assms(4) have ne: "nonce \<noteq> []" by auto
  from assms(2,4) have
    "length (snd (gcm_encrypt R key nonce (json_stringify R t))) = 16"
    "gcm_decrypt R key nonce (snd (gcm_encrypt R key nonce (json_stringify R t)))
       (fst (gcm_encrypt R key nonce (json_stringify R t))) = Some (json_stringify R t)"
    by (auto simp: gcm_correct_def)
  with key_configured_enc[OF assms(1)] assms(3) ne show ?thesis
    by (auto simp: decryptTokens_def createDecipheriv_def createCipheriv_def setAuthTag_def
        valid_gcm_tag_length_def Let_def b64_roundtrip json_faithful_def)
qed

lemma decrypt_encrypt:
  assumes "key_configured e key" "gcm_correct R key" "json_faithful R t"
    and "encryptTokens R e t w = (Inr s, w')"
  shows "decryptTokens R e (encrypted s) (iv s) (tag s) = Inr t"
  using assms(4) unfolding encryptTokens_ok[OF assms(1)]
  using decrypt_sealed[OF assms(1-3) length_randomBytes] by auto

subsection \<open>The example runtime meets the contracts\<close>

lemma length_bits_of_bytes: "length (bits_of_bytes bs) = 8 * length bs"
  by (induction bs) (simp_all add: bits_of_bytes_def bits_of_char_def)

lemma bits_of_bytes_inverse:
  "8 dvd length xs \<Longrightarrow> bits_of_bytes (bytes_of_bits xs) = xs"
proof (induction xs rule: bytes_of_bits.induct)
  case (1 b7 b6 b5 b4 b3 b2 b1 b0 rest)
  from "1.prems" have "8 dvd length rest" by (simp add: dvd_def) presburger
  with "1.IH" show ?case by (simp add: bits_of_bytes_def bits_of_char_def)
qed (auto simp: bits_of_bytes_def dest!: dvd_imp_le)

lemma bits_of_flip:
  "bits_of_bytes (flip_nth_bit i bs) = (bits_of_bytes bs)[i := \<not> bits_of_bytes bs ! i]"
  unfolding flip_nth_bit_def by (rule bits_of_bytes_inverse) (simp add: length_bits_of_bytes)

lemma flip_nth_bit_neq: "i < 8 * length bs \<Longrightarrow> flip_nth_bit i bs \<noteq> bs"
proof
  assume i: "i < 8 * length bs" and eq: "flip_nth_bit i bs = bs"
  from eq have "bits_of_bytes (flip_nth_bit i bs) ! i = bits_of_bytes bs ! i" by simp
  with i show False by (simp add: bits_of_flip length_bits_of_bytes)
qed

lemma parity_flip:
  "i < length xs \<Longrightarrow> parity (xs[i := \<not> xs ! i]) = (\<not> parity xs)"
proof (induction xs arbitrary: i)
  case Nil
  then show ?case by simp
next
  case (Cons x xs)
  then show ?case by (cases i) (auto simp: parity_def)
qed

lemma parity_append: "parity (xs @ ys) = (parity xs \<noteq> parity ys)"
  by (auto simp: parity_def)

lemma xor_char_twice: "xor_char m (xor_char m c) = c"
  by (cases c) (auto simp: xor_char_def)

lemma length_bytes_of_bits: "length (bytes_of_bits xs) = length xs div 8"
  by (induction xs rule: bytes_of_bits.induct) simp_all

lemma length_flip_nth_bit: "length (flip_nth_bit i bs) = length bs"
  by (simp add: flip_nth_bit_def length_bytes_of_bits length_bits_of_bytes)

lemma length_parity_tag: "length (parity_tag key nonce ct) = 16"
  by (simp add: parity_tag_def)

lemma sample_gcm_correct: "gcm_correct sample_runtime key"
  by (simp add: gcm_correct_def sample_runtime_def mask_seal_def mask_open_def xor_char_twice
      comp_def length_parity_tag)

lemma sample_gcm_short_tags: "gcm_short_tags sample_runtime key"
  by (simp add: gcm_short_tags_def sample_runtime_def mask_seal_def mask_open_def xor_char_twice
      comp_def length_parity_tag valid_gcm_tag_length_def min_def)

lemma parity_tag_flip_nonce:
  "i < 8 * length nonce \<Longrightarrow> parity_tag key (flip_nth_bit i nonce) ct \<noteq> parity_tag key nonce ct"
  by (simp add: parity_tag_def bits_of_bytes_def[of "_ @ _"] parity_append
      bits_of_bytes_def[symmetric] bits_of_flip parity_flip length_bits_of_bytes)

lemma parity_tag_flip_ct:
  "i < 8 * length ct \<Longrightarrow> parity_tag key nonce (flip_nth_bit i ct) \<noteq> parity_tag key nonce ct"
  by (simp add: parity_tag_def bits_of_bytes_def[of "_ @ _"] parity_append
      bits_of_bytes_def[symmetric] bits_of_flip parity_flip length_bits_of_bytes)

lemma sample_gcm_authentic: "gcm_authentic sample_runtime key"
  unfolding gcm_authentic_def
proof (intro allI conjI impI)
  fix nonce pt i
  let ?ct = "fst (gcm_encrypt sample_runtime key nonce pt)"
  let ?tg = "snd (gcm_encrypt sample_runtime key nonce pt)"
  have tg: "?tg = parity_tag key nonce ?ct"
    by (simp add: sample_runtime_def mask_seal_def)
  show "gcm_decrypt sample_runtime key (flip_nth_bit i nonce) ?tg ?ct = None"
    if "i < 8 * length nonce"
    using parity_tag_flip_nonce[OF that, of key ?ct] unfolding tg
    by (simp add: sample_runtime_def mask_open_def length_parity_tag)
  show "gcm_decrypt sample_runtime key nonce (flip_nth_bit i ?tg) ?ct = None"
    if "i < 8 * length ?tg"
    using flip_nth_bit_neq[OF that] unfolding tg
    by (simp add: sample_runtime_def mask_open_def length_parity_tag length_flip_nth_bit)
  show "gcm_decrypt sample_runtime key nonce ?tg (flip_nth_bit i ?ct) = None"
    if "i < 8 * length ?ct"
    using parity_tag_flip_ct[OF that, of key nonce] unfolding tg
    by (simp add: sample_runtime_def mask_open_def length_parity_tag)
qed

lemma sample_key_decoded:
  "b64_decode ''MDEyMzQ1Njc4OWFiY2RlZjAxMjM0NTY3ODlhYmNkZWY='' = sample_key"
  by (simp add: b64_decode_def unbase64_def b64_alphabet_def bits_of_sextet_def
      List.map_filter_simps sample_key_def)

lemma sample_key_configured: "key_configured sample_env sample_key"
  by (simp add: key_configured_def key_bytes_def ENC_KEY_B64_def sample_env_def truthy_def
      sample_key_decoded) (simp add: sample_key_def)

lemma sample_json:
  "json_faithful sample_runtime sample_tokens"
  "json_faithful sample_runtime fresh_tokens"
  "json_faithful sample_runtime lone_tokens"
  by (simp_all add: sample_tokens_def fresh_tokens_def lone_tokens_def json_faithful_def sample_runtime_def flat_stringify_def flat_parse_def
      List.map_filter_simps member_text_def quoted_def dq_def string_member_def number_member_def
      skip_comma_def is_digit_def nat_of_digits_def toString.simps)


subsection \<open>Claims about the credential cipher\<close>

text \<open>
  C2. For every valid token bundle \<open>b\<close> (one that survives \<^verbatim>\<open>JSON.stringify\<close> and
  \<^verbatim>\<open>JSON.parse\<close>), with a 32-byte key configured and a cipher that decrypts what it
  encrypted: \<^verbatim>\<open>encryptTokens(b)\<close> succeeds, and \<^verbatim>\<open>decryptTokens\<close> of its
  \<^verbatim>\<open>encrypted\<close>, \<^verbatim>\<open>iv\<close> and \<^verbatim>\<open>tag\<close> returns \<open>b\<close>.
\<close>

theorem seal_open_roundtrip:
  assumes "key_configured e key" and "gcm_correct R key" and "json_faithful R b"
  shows "\<exists>s w'. encryptTokens R e b w = (Inr s, w') \<and>
                 decryptTokens R e (encrypted s) (iv s) (tag s) = Inr b"
proof -
  obtain s w' where enc: "encryptTokens R e b w = (Inr s, w')"
    using encryptTokens_ok[OF assms(1)] by blast
  from decrypt_encrypt[OF assms enc] enc show ?thesis by blast
qed

theorem seal_open_roundtrip_witness:
  "key_configured sample_env sample_key \<and> gcm_correct sample_runtime sample_key \<and>
   json_faithful sample_runtime sample_tokens \<and>
   (\<exists>s w'. encryptTokens sample_runtime sample_env sample_tokens empty_world = (Inr s, w') \<and>
            decryptTokens sample_runtime sample_env (encrypted s) (iv s) (tag s)
              = Inr sample_tokens)"
  using seal_open_roundtrip[OF sample_key_configured sample_gcm_correct sample_json(1)]
    sample_key_configured sample_gcm_correct sample_json(1)
  by blast

lemmas b64_eval =
  b64_decode_def unbase64_def b64_alphabet_def bits_of_sextet_def List.map_filter_simps
  b64_encode_def bits_of_bytes_def bits_of_char_def nat_of_bits_def replicate_small

lemma sample_sealed_eq:
  "encryptTokens sample_runtime sample_env sample_tokens entropy_world
     = (Inr sample_sealed, entropy_world\<lparr>entropy := [''nonce-000002'', ''nonce-000003'']\<rparr>)"
  unfolding encryptTokens_ok[OF sample_key_configured]
  by (simp add: sample_sealed_def entropy_world_def empty_world_def randomBytes_def
      sample_runtime_def mask_seal_def parity_tag_def mask_of_def sample_key_def xor_char_def
      flat_stringify_def sample_tokens_def member_text_def quoted_def dq_def parity_def b64_eval
      toString.simps)

lemma short_key_bytes: "key_bytes short_key_env = Some ''0123456789abcdef''"
  by (simp add: key_bytes_def ENC_KEY_B64_def short_key_env_def truthy_def b64_eval)

text \<open>
  C4. \<^verbatim>\<open>decryptTokens\<close> throws the configuration error when no key is configured. With
  a key of 16 bytes it makes no length check of its own: \<^verbatim>\<open>createDecipheriv\<close> rejects
  the key with its \<^verbatim>\<open>RangeError\<close> (or, when the stored iv decodes to no bytes, the iv
  before it looks at the key), where \<^verbatim>\<open>encryptTokens\<close> throws the configuration error
  \<^verbatim>\<open>Invalid encryption key length\<close>.
\<close>

theorem decrypt_key_checks:
  "decryptTokens R no_key_env enc ivs tags
     = Inl (Error ''Encryption key not configured (PRODIT_TOKEN_KEY)'') \<and>
   decryptTokens R short_key_env enc ivs tags
     = Inl (CryptoError (if b64_decode ivs = [] then ''Invalid initialization vector''
                         else ''Invalid key length'')) \<and>
   decryptTokens R short_key_env enc ''bm9uY2UtMDAwMDAx'' tags
     = Inl (CryptoError ''Invalid key length'') \<and>
   fst (encryptTokens R short_key_env t w)
     = Inl (Error ''Invalid encryption key length. Must be 32 bytes (base64 encoded).'')"
proof -
  have k: "ENC_KEY_B64 short_key_env = Some ''MDEyMzQ1Njc4OWFiY2RlZg==''"
    by (simp add: ENC_KEY_B64_def short_key_env_def truthy_def)
  have len: "length (b64_decode ''MDEyMzQ1Njc4OWFiY2RlZg=='') = 16"
    using short_key_bytes by (simp add: key_bytes_def k)
  have nonce: "b64_decode ''bm9uY2UtMDAwMDAx'' = ''nonce-000001''"
    by (simp add: b64_eval)
  have short: "decryptTokens R short_key_env enc ivs' tags
     = Inl (CryptoError (if b64_decode ivs' = [] then ''Invalid initialization vector''
                         else ''Invalid key length''))" for ivs'
    by (simp add: decryptTokens_def k len createDecipheriv_def createCipheriv_def Let_def)
  have "decryptTokens R no_key_env enc ivs tags
     = Inl (Error ''Encryption key not configured (PRODIT_TOKEN_KEY)'')"
    by (simp add: decryptTokens_def ENC_KEY_B64_def no_key_env_def truthy_def)
  moreover have "fst (encryptTokens R short_key_env t w)
     = Inl (Error ''Invalid encryption key length. Must be 32 bytes (base64 encoded).'')"
    by (simp add: encryptTokens_def k len Let_def)
  moreover have "decryptTokens R short_key_env enc ''bm9uY2UtMDAwMDAx'' tags
     = Inl (CryptoError ''Invalid key length'')"
    unfolding short nonce by simp
  ultimately show ?thesis using short[of ivs] by simp
qed

lemma decrypt_same_bytes:
  assumes "b64_decode enc' = b64_decode enc" and "b64_decode ivs' = b64_decode ivs"
    and "b64_decode tags' = b64_decode tags"
  shows "decryptTokens R e enc' ivs' tags' = decryptTokens R e enc ivs tags"
  unfolding decryptTokens_def assms by (rule refl)

text \<open>
  What the authenticity of the cipher gives: stored strings that decode to the sealed
  bytes with one bit of the ciphertext, of the iv or of the tag flipped are rejected.
\<close>

lemma decrypt_tampered:
  assumes "key_configured e key" and "gcm_authentic R key"
    and "encryptTokens R e b w = (Inr s, w')"
    and "tampered i s enc' ivs' tags'"
    and "gcm_correct R key"
  shows "decryptTokens R e enc' ivs' tags'
           = Inl (CryptoError ''Unsupported state or unable to authenticate data'')"
proof -
  let ?nonce = "fst (randomBytes 12 w)"
  let ?ct = "fst (gcm_encrypt R key ?nonce (json_stringify R b))"
  let ?tg = "snd (gcm_encrypt R key ?nonce (json_stringify R b))"
  from assms(3) have s: "b64_decode (encrypted s) = ?ct" "b64_decode (iv s) = ?nonce"
    "b64_decode (tag s) = ?tg"
    unfolding encryptTokens_ok[OF assms(1)] by (auto simp: b64_roundtrip)
  have n12: "length ?nonce = 12" by (rule length_randomBytes)
  with assms(5) have t16: "length ?tg = 16" by (auto simp: gcm_correct_def)
  from n12 assms(2) have auth:
    "\<And>j. j < 8 * length ?nonce \<Longrightarrow> gcm_decrypt R key (flip_nth_bit j ?nonce) ?tg ?ct = None"
    "\<And>j. j < 8 * length ?tg \<Longrightarrow> gcm_decrypt R key ?nonce (flip_nth_bit j ?tg) ?ct = None"
    "\<And>j. j < 8 * length ?ct \<Longrightarrow> gcm_decrypt R key ?nonce ?tg (flip_nth_bit j ?ct) = None"
    unfolding gcm_authentic_def by blast+
  from assms(4) have
    "gcm_decrypt R key (b64_decode ivs') (b64_decode tags') (b64_decode enc') = None"
    unfolding tampered_def one_bit_apart_def s using auth by auto
  moreover from assms(4) have "length (b64_decode ivs') = 12" "length (b64_decode tags') = 16"
    unfolding tampered_def one_bit_apart_def s using n12 t16
    by (auto simp: length_flip_nth_bit)
  then have "b64_decode ivs' \<noteq> []" "valid_gcm_tag_length (length (b64_decode tags'))"
    by (auto simp: valid_gcm_tag_length_def)
  ultimately show ?thesis
    using key_configured_enc[OF assms(1)]
    by (auto simp: decryptTokens_def createDecipheriv_def createCipheriv_def setAuthTag_def Let_def)
qed

text \<open>
  A flipped bit of the stored text that decoding ignores is not detected: the last
  character of a stored 16-byte tag carries four bits that \<^verbatim>\<open>Buffer.from(tag, 'base64')\<close>
  drops. Flipping one of them (here turning \<^verbatim>\<open>Q\<close> into \<^verbatim>\<open>S\<close>) changes the stored tag and
  \<^verbatim>\<open>decryptTokens\<close> still returns the bundle.
\<close>

theorem stored_tag_bit_flip_accepted:
  "encryptTokens sample_runtime sample_env sample_tokens entropy_world
     = (Inr sample_sealed, entropy_world\<lparr>entropy := [''nonce-000002'', ''nonce-000003'']\<rparr>) \<and>
   flip_nth_bit 174 (tag sample_sealed) = ''ADAxMjM0NTY3ODlhYmNkZS=='' \<and>
   flip_nth_bit 174 (tag sample_sealed) \<noteq> tag sample_sealed \<and>
   decryptTokens sample_runtime sample_env (encrypted sample_sealed) (iv sample_sealed)
     (flip_nth_bit 174 (tag sample_sealed)) = Inr sample_tokens"
proof -
  have f: "flip_nth_bit 174 (tag sample_sealed) = ''ADAxMjM0NTY3ODlhYmNkZS==''"
    by (simp add: sample_sealed_def flip_nth_bit_def bits_of_bytes_def bits_of_char_def)
  have d: "b64_decode ''ADAxMjM0NTY3ODlhYmNkZS=='' = b64_decode (tag sample_sealed)"
    by (simp add: sample_sealed_def b64_eval)
  have "decryptTokens sample_runtime sample_env (encrypted sample_sealed) (iv sample_sealed)
          (tag sample_sealed) = Inr sample_tokens"
    using decrypt_encrypt[OF sample_key_configured sample_gcm_correct sample_json(1) sample_sealed_eq] .
  then have "decryptTokens sample_runtime sample_env (encrypted sample_sealed) (iv sample_sealed)
          ''ADAxMjM0NTY3ODlhYmNkZS=='' = Inr sample_tokens"
    using decrypt_same_bytes[OF refl refl d] by simp
  moreover have "''ADAxMjM0NTY3ODlhYmNkZS=='' \<noteq> tag sample_sealed"
    by (simp add: sample_sealed_def)
  ultimately show ?thesis using f sample_sealed_eq by simp
qed

subsection \<open>A truncated tag opens the bundle\<close>

lemma sextets_append:
  "6 dvd length xs \<Longrightarrow> sextets_of_bits (xs @ ys) = sextets_of_bits xs @ sextets_of_bits ys"
proof (induction xs rule: sextets_of_bits.induct)
  case 1
  then show ?case by simp
next
  case (2 a b c d e f rest)
  from "2.prems" have "6 dvd length rest" by (simp add: dvd_def) presburger
  with "2.IH" show ?case by simp
qed (auto dest!: dvd_imp_le)

lemma bytes_of_bits_prefix:
  "bytes_of_bits (bits_of_bytes bs @ rest) = bs @ bytes_of_bits rest"
proof (induction bs)
  case Nil
  then show ?case by (simp add: bits_of_bytes_def)
next
  case (Cons c bs)
  then show ?case by (cases c) (simp add: bits_of_bytes_def bits_of_char_def)
qed

lemma alphabet_ascii: "n < 64 \<Longrightarrow> \<not> digit7 (b64_alphabet ! n)"
proof -
  have "list_all (\<lambda>n. \<not> digit7 (b64_alphabet ! n)) [0..<64]" by code_simp
  then show "n < 64 \<Longrightarrow> \<not> digit7 (b64_alphabet ! n)" by (simp add: list_all_iff)
qed

lemma index_of_mem: "index_of x ys = Some n \<Longrightarrow> x \<in> set ys"
  by (induction ys arbitrary: n) (auto split: if_splits)

lemma unbase64_ascii: "digit7 c \<Longrightarrow> unbase64 c = None"
proof (rule ccontr)
  assume d: "digit7 c" and "unbase64 c \<noteq> None"
  then obtain n where "unbase64 c = Some n" by auto
  then have "c = CHR ''-'' \<or> c = CHR ''_'' \<or> c \<in> set b64_alphabet"
    by (auto simp: unbase64_def dest: index_of_mem split: if_splits)
  moreover have "\<forall>x \<in> set b64_alphabet. \<not> digit7 x" by (simp add: b64_alphabet_def)
  ultimately show False using d by auto
qed

text \<open>Flipping the first bit of a character of a string.\<close>

lemma flip_first_bit:
  "flip_nth_bit (8 * length p) (p @ x # q)
     = p @ Char (digit0 x) (digit1 x) (digit2 x) (digit3 x) (digit4 x) (digit5 x) (digit6 x)
              (\<not> digit7 x) # q"
proof -
  have "(bits_of_bytes (p @ x # q))[8 * length p := \<not> bits_of_bytes (p @ x # q) ! (8 * length p)]
      = bits_of_bytes p @ bits_of_bytes
          (Char (digit0 x) (digit1 x) (digit2 x) (digit3 x) (digit4 x) (digit5 x) (digit6 x)
              (\<not> digit7 x) # q)"
    by (simp add: bits_of_bytes_def[of "_ @ _"] bits_of_bytes_def[of "_ # _"]
        bits_of_bytes_def[symmetric] length_bits_of_bytes list_update_append nth_append
        bits_of_char_def)
  then show ?thesis
    unfolding flip_nth_bit_def
    using bytes_of_bits_append[of "[]"] by (simp add: bytes_of_bits_prefix)
qed

lemma length_sextet_bits: "length (concat (map bits_of_sextet ns)) = 6 * length ns"
  by (induction ns) (simp_all add: bits_of_sextet_def)

lemma map_filter_app:
  "List.map_filter f (xs @ ys) = List.map_filter f xs @ List.map_filter f ys"
  by (simp add: List.map_filter_def)

lemma encode_16:
  assumes "length tg = 16"
  shows "\<exists>ns n x. length ns = 20 \<and> (\<forall>k \<in> set ns. k < 64) \<and> n < 64 \<and> \<not> digit7 x \<and>
           concat (map bits_of_sextet ns) = bits_of_bytes (take 15 tg) \<and>
           b64_encode tg = map (\<lambda>k. b64_alphabet ! k) ns @ [b64_alphabet ! n] @ x # ''==''"
proof -
  from assms obtain pre c where tg: "tg = pre @ [c]" and pre: "length pre = 15"
    by (cases tg rule: rev_cases) auto
  let ?ns = "sextets_of_bits (bits_of_bytes pre)"
  have d: "6 dvd length (bits_of_bytes pre)" by (simp add: length_bits_of_bytes pre)
  have bits: "bits_of_bytes tg = bits_of_bytes pre @ bits_of_char c"
    by (simp add: tg bits_of_bytes_def)
  have sx: "sextets_of_bits (bits_of_bytes tg) = ?ns @
      [nat_of_bits [digit7 c, digit6 c, digit5 c, digit4 c, digit3 c, digit2 c],
       nat_of_bits [digit1 c, digit0 c, False, False, False, False]]"
    unfolding bits sextets_append[OF d] by (simp add: bits_of_char_def)
  have cc: "concat (map bits_of_sextet ?ns) = bits_of_bytes pre"
    using sextets_bits[of "bits_of_bytes pre"] by (simp add: length_bits_of_bytes pre)
  then have "length (concat (map bits_of_sextet ?ns)) = 120"
    by (simp add: length_bits_of_bytes pre)
  then have len: "length ?ns = 20" by (simp add: length_sextet_bits)
  have enc: "b64_encode tg = map (\<lambda>k. b64_alphabet ! k) ?ns @
      [b64_alphabet ! nat_of_bits [digit7 c, digit6 c, digit5 c, digit4 c, digit3 c, digit2 c]] @
      b64_alphabet ! nat_of_bits [digit1 c, digit0 c, False, False, False, False] # ''==''"
    unfolding b64_encode_def sx by (simp add: assms replicate_small)
  have pre': "take 15 tg = pre" by (simp add: tg pre)
  show ?thesis
    apply (rule exI[of _ ?ns])
    apply (rule exI[of _ "nat_of_bits [digit7 c, digit6 c, digit5 c, digit4 c, digit3 c, digit2 c]"])
    apply (rule exI[of _ "b64_alphabet ! nat_of_bits [digit1 c, digit0 c, False, False, False, False]"])
    unfolding pre'
    using len cc sextets_lt[of _ "bits_of_bytes pre"] nat_of_bits6_lt alphabet_ascii enc
    by simp
qed

lemma flipped_tag_decodes_prefix:
  assumes "length tg = 16"
  shows "b64_decode (flip_nth_bit 168 (b64_encode tg)) = take 15 tg"
    and "flip_nth_bit 168 (b64_encode tg) \<noteq> b64_encode tg"
proof -
  from encode_16[OF assms] obtain ns n x where ns: "length ns = 20" "\<forall>k \<in> set ns. k < 64"
    and n: "n < 64" and x: "\<not> digit7 x"
    and cc: "concat (map bits_of_sextet ns) = bits_of_bytes (take 15 tg)"
    and enc: "b64_encode tg = map (\<lambda>k. b64_alphabet ! k) ns @ [b64_alphabet ! n] @ x # ''==''"
    by blast
  let ?p = "map (\<lambda>k. b64_alphabet ! k) (ns @ [n])"
  let ?x' = "Char (digit0 x) (digit1 x) (digit2 x) (digit3 x) (digit4 x) (digit5 x) (digit6 x) True"
  have lt: "\<forall>k \<in> set (ns @ [n]). k < 64" using ns n by auto
  have fl: "flip_nth_bit 168 (b64_encode tg) = ?p @ ?x' # ''==''"
    using flip_first_bit[of ?p x "''==''"] x by (simp add: enc ns)
  have x': "?x' \<noteq> CHR ''=''" "unbase64 ?x' = None"
    by (simp_all add: unbase64_ascii)
  have tw: "takeWhile (\<lambda>c. c \<noteq> CHR ''='') (?p @ ?x' # ''=='') = ?p @ [?x']"
    using lt x'(1) by (simp add: takeWhile_append alphabet_not_pad del: map_append)
  have mf: "List.map_filter unbase64 (?p @ [?x']) = ns @ [n]"
    unfolding map_filter_app map_filter_unbase64[OF lt]
    using x'(2) by (simp add: List.map_filter_simps)
  have "b64_decode (?p @ ?x' # ''=='') = bytes_of_bits (bits_of_bytes (take 15 tg) @ bits_of_sextet n)"
    unfolding b64_decode_def tw mf by (simp add: cc)
  also have "\<dots> = take 15 tg"
    by (rule bytes_of_bits_append) (simp add: bits_of_sextet_def)
  finally show "b64_decode (flip_nth_bit 168 (b64_encode tg)) = take 15 tg"
    unfolding fl .
  have "?x' \<noteq> x" using x by (metis char.sel(8))
  then show "flip_nth_bit 168 (b64_encode tg) \<noteq> b64_encode tg"
    unfolding fl by (simp add: enc)
qed
lemma decrypt_short_tag:
  assumes "key_configured e key" and "gcm_correct R key" and "gcm_short_tags R key"
    and "json_faithful R b" and "encryptTokens R e b w = (Inr s, w')"
    and "valid_gcm_tag_length n" and "b64_decode tags' = take n (b64_decode (tag s))"
  shows "decryptTokens R e (encrypted s) (iv s) tags' = Inr b"
proof -
  let ?nonce = "fst (randomBytes 12 w)"
  let ?ct = "fst (gcm_encrypt R key ?nonce (json_stringify R b))"
  let ?tg = "snd (gcm_encrypt R key ?nonce (json_stringify R b))"
  from assms(5) have s: "b64_decode (encrypted s) = ?ct" "b64_decode (iv s) = ?nonce"
    "b64_decode (tag s) = ?tg"
    unfolding encryptTokens_ok[OF assms(1)] by (auto simp: b64_roundtrip)
  have n12: "length ?nonce = 12" by (rule length_randomBytes)
  then have ne: "?nonce \<noteq> []" by auto
  from n12 assms(2) have t16: "length ?tg = 16" by (auto simp: gcm_correct_def)
  from assms(6) have "n \<le> 16" by (auto simp: valid_gcm_tag_length_def)
  with t16 have len: "length (take n ?tg) = n" by simp
  from assms(3,6) n12 have "gcm_decrypt R key ?nonce (take n ?tg) ?ct = Some (json_stringify R b)"
    unfolding gcm_short_tags_def by blast
  with key_configured_enc[OF assms(1)] assms(4,6) ne len show ?thesis
    by (auto simp: decryptTokens_def createDecipheriv_def createCipheriv_def setAuthTag_def
        Let_def s assms(7) json_faithful_def simp del: length_take)
qed

text \<open>
  C5. \<^verbatim>\<open>decryptTokens\<close> does not detect every flipped bit of a stored tag. It gives
  \<^verbatim>\<open>createDecipheriv\<close> no \<^verbatim>\<open>authTagLength\<close> and does not check that the decoded tag has
  16 bytes, so \<^verbatim>\<open>setAuthTag\<close> takes a shorter tag and \<^verbatim>\<open>final\<close> compares only its bytes.
  For every sealed bundle, flipping the first bit of the 22nd character of the stored
  tag (bit 168) yields another stored tag, which decodes to the first 15 bytes of the
  tag, and \<^verbatim>\<open>decryptTokens\<close> returns the bundle where the claim has it fail with an
  integrity error. The same holds for every stored tag that decodes to the first 4, 8
  or 12 to 15 bytes of the tag.
\<close>

theorem truncated_tag_accepted:
  assumes "key_configured e key" and "gcm_correct R key" and "gcm_short_tags R key"
    and "json_faithful R b" and "encryptTokens R e b w = (Inr s, w')"
  shows "flip_nth_bit 168 (tag s) \<noteq> tag s \<and>
         b64_decode (flip_nth_bit 168 (tag s)) = take 15 (b64_decode (tag s)) \<and>
         decryptTokens R e (encrypted s) (iv s) (flip_nth_bit 168 (tag s)) = Inr b \<and>
         (valid_gcm_tag_length n \<and> b64_decode tags' = take n (b64_decode (tag s)) \<longrightarrow>
            decryptTokens R e (encrypted s) (iv s) tags' = Inr b)"
proof -
  let ?tg = "snd (gcm_encrypt R key (fst (randomBytes 12 w)) (json_stringify R b))"
  from assms(5) have tag: "tag s = b64_encode ?tg"
    unfolding encryptTokens_ok[OF assms(1)] by auto
  from assms(2) have t16: "length ?tg = 16"
    using length_randomBytes[of 12 w] by (auto simp: gcm_correct_def)
  note fl = flipped_tag_decodes_prefix[OF t16]
  have pre: "b64_decode (flip_nth_bit 168 (tag s)) = take 15 (b64_decode (tag s))"
    unfolding tag fl(1) by (simp add: b64_roundtrip)
  have v: "valid_gcm_tag_length 15" by (simp add: valid_gcm_tag_length_def)
  from decrypt_short_tag[OF assms v pre] decrypt_short_tag[OF assms, of n tags'] fl(2) pre
  show ?thesis unfolding tag by blast
qed

text \<open>
  In the example the stored tag is \<^verbatim>\<open>ADAxMjM0NTY3ODlhYmNkZQ==\<close>. Bit 168 turns its \<^verbatim>\<open>Q\<close>
  into the byte \<^verbatim>\<open>0xD1\<close> and bit 165 turns its last \<^verbatim>\<open>Z\<close> into \<^verbatim>\<open>^\<close>; neither is a
  base64 character, \<^verbatim>\<open>Buffer.from\<close> skips it and decodes 15 bytes. \<^verbatim>\<open>ADAxMg==\<close> is the
  first 4 bytes of the tag.
\<close>

theorem truncated_tag_accepted_witness:
  "key_configured sample_env sample_key \<and> gcm_correct sample_runtime sample_key \<and>
   gcm_short_tags sample_runtime sample_key \<and> json_faithful sample_runtime sample_tokens \<and>
   encryptTokens sample_runtime sample_env sample_tokens entropy_world
     = (Inr sample_sealed, entropy_world\<lparr>entropy := [''nonce-000002'', ''nonce-000003'']\<rparr>) \<and>
   tag sample_sealed = ''ADAxMjM0NTY3ODlhYmNkZQ=='' \<and>
   flip_nth_bit 168 (tag sample_sealed) = ''ADAxMjM0NTY3ODlhYmNkZ'' @ CHR 0xD1 # ''=='' \<and>
   decryptTokens sample_runtime sample_env (encrypted sample_sealed) (iv sample_sealed)
     (flip_nth_bit 168 (tag sample_sealed)) = Inr sample_tokens \<and>
   flip_nth_bit 165 (tag sample_sealed) = ''ADAxMjM0NTY3ODlhYmNk^Q=='' \<and>
   decryptTokens sample_runtime sample_env (encrypted sample_sealed) (iv sample_sealed)
     ''ADAxMjM0NTY3ODlhYmNk^Q=='' = Inr sample_tokens \<and>
   decryptTokens sample_runtime sample_env (encrypted sample_sealed) (iv sample_sealed)
     ''ADAxMg=='' = Inr sample_tokens"
proof -
  note hyps = sample_key_configured sample_gcm_correct sample_gcm_short_tags sample_json(1)
    sample_sealed_eq
  have f168: "flip_nth_bit 168 (tag sample_sealed) = ''ADAxMjM0NTY3ODlhYmNkZ'' @ CHR 0xD1 # ''==''"
    by (simp add: sample_sealed_def flip_nth_bit_def bits_of_bytes_def bits_of_char_def)
  have f165: "flip_nth_bit 165 (tag sample_sealed) = ''ADAxMjM0NTY3ODlhYmNk^Q==''"
    by (simp add: sample_sealed_def flip_nth_bit_def bits_of_bytes_def bits_of_char_def)
  have d15: "b64_decode ''ADAxMjM0NTY3ODlhYmNk^Q=='' = take 15 (b64_decode (tag sample_sealed))"
    by (simp add: sample_sealed_def b64_eval)
  have d4: "b64_decode ''ADAxMg=='' = take 4 (b64_decode (tag sample_sealed))"
    by (simp add: sample_sealed_def b64_eval)
  have v: "valid_gcm_tag_length 15" "valid_gcm_tag_length 4"
    by (simp_all add: valid_gcm_tag_length_def)
  from truncated_tag_accepted[OF hyps, of 15 "''ADAxMjM0NTY3ODlhYmNk^Q==''"]
    truncated_tag_accepted[OF hyps, of 4 "''ADAxMg==''"] v d15 d4
  have "decryptTokens sample_runtime sample_env (encrypted sample_sealed) (iv sample_sealed)
     (flip_nth_bit 168 (tag sample_sealed)) = Inr sample_tokens"
    and "decryptTokens sample_runtime sample_env (encrypted sample_sealed) (iv sample_sealed)
     ''ADAxMjM0NTY3ODlhYmNk^Q=='' = Inr sample_tokens"
    and "decryptTokens sample_runtime sample_env (encrypted sample_sealed) (iv sample_sealed)
     ''ADAxMg=='' = Inr sample_tokens"
    by blast+
  moreover have "tag sample_sealed = ''ADAxMjM0NTY3ODlhYmNkZQ==''" by (simp add: sample_sealed_def)
  ultimately show ?thesis using hyps f168 f165 by blast
qed

subsection \<open>The store: upsert keeps one row per key\<close>

lemma has_key_row_key: "has_key u t r \<longleftrightarrow> row_key r = (u, t)"
  by (auto simp: has_key_def row_key_def)

lemma has_key_eq: "has_key u t = (\<lambda>r. row_key r = (u, t))"
  by (auto simp: has_key_def row_key_def fun_eq_iff)

lemma unique_keys_row_key: "unique_keys rs \<longleftrightarrow> distinct (map row_key rs)"
  by (simp add: unique_keys_def row_key_def[abs_def])

lemma distinct_filter_key:
  "distinct (map f xs) \<Longrightarrow> x \<in> set xs \<Longrightarrow> filter (\<lambda>y. f y = f x) xs = [x]"
proof (induction xs)
  case Nil
  then show ?case by simp
next
  case (Cons a xs)
  show ?case
  proof (cases "a = x")
    case True
    from Cons.prems have "f x \<notin> f ` set xs" using True by simp
    then have "filter (\<lambda>y. f y = f x) xs = []"
      by (auto simp: filter_empty_conv image_iff)
    with True show ?thesis by simp
  next
    case False
    with Cons show ?thesis by auto
  qed
qed

lemma filter_map_update:
  "(\<And>x. P (g x) = P x) \<Longrightarrow>
     filter P (map (\<lambda>r. if P r then g r else r) xs) = map g (filter P xs)"
  by (induction xs) auto

lemma encrypt_rows:
  "encryptTokens R e t w = (res, w1) \<Longrightarrow>
     rows w1 = rows w \<and> next_id w1 = next_id w \<and> clock w1 = clock w \<and> log w1 = log w \<and>
     token_replies w1 = token_replies w \<and> conn_replies w1 = conn_replies w \<and>
     api_replies w1 = api_replies w"
  by (auto simp: encryptTokens_def randomBytes_def Let_def
      split: option.splits if_splits list.splits prod.splits)

lemma encrypt_bundle:
  assumes "key_configured e key" "gcm_correct R key" "json_faithful R t"
    and "encryptTokens R e t w = (Inr s, w1)"
    and "encrypted_tokens r = encrypted s" "encryption_iv r = iv s" "encryption_tag r = tag s"
  shows "bundle_of R e r = Inr t"
  using decrypt_encrypt[OF assms(1-4)] assms(5-7) by (simp add: bundle_of_def)

lemma insert_on_conflict_keys:
  "unique_keys (rows w) \<Longrightarrow> unique_keys (rows (snd (insert_on_conflict u t n s sys w)))"
proof (cases "find (has_key u t) (rows w)")
  case None
  assume "unique_keys (rows w)"
  moreover from None have "\<forall>r \<in> set (rows w). row_key r \<noteq> (u, t)"
    by (auto simp: find_None_iff has_key_row_key)
  ultimately show ?thesis
    using None by (auto simp: insert_on_conflict_def unique_keys_row_key row_key_def)
next
  case (Some old)
  assume "unique_keys (rows w)"
  moreover have "row_key \<circ> (\<lambda>r. if has_key u t r
                   then r\<lparr>tenant_name := n, encrypted_tokens := encrypted s,
                          encryption_iv := iv s, encryption_tag := tag s,
                          is_system_connection := sys, last_synced := clock w\<rparr>
                   else r) = row_key"
    by (auto simp: row_key_def fun_eq_iff)
  ultimately show ?thesis
    using Some by (simp add: insert_on_conflict_def unique_keys_row_key)
qed

text \<open>After the statement the key has exactly one row; it holds what was just sealed.\<close>

lemma insert_on_conflict_row:
  assumes "unique_keys (rows w)"
    and "insert_on_conflict u t n s sys w = (returned, w')"
  shows "\<exists>r. filter (has_key u t) (rows w') = [r] \<and>
             encrypted_tokens r = encrypted s \<and> encryption_iv r = iv s \<and>
             encryption_tag r = tag s \<and> tenant_name r = n \<and>
             returned = \<lparr>id_s = row_id r, tenant_id_s = t, tenant_name_s = n\<rparr>"
proof (cases "find (has_key u t) (rows w)")
  case None
  then have "filter (has_key u t) (rows w) = []"
    by (auto simp: find_None_iff filter_empty_conv)
  with None assms(2) show ?thesis
    by (auto simp: insert_on_conflict_def has_key_def)
next
  case (Some old)
  then have old: "old \<in> set (rows w)" "has_key u t old"
    by (auto simp: find_Some_iff)
  let ?upd = "\<lambda>r. r\<lparr>tenant_name := n, encrypted_tokens := encrypted s,
                     encryption_iv := iv s, encryption_tag := tag s,
                     is_system_connection := sys, last_synced := clock w\<rparr>"
  have "filter (has_key u t) (rows w) = [old]"
    using distinct_filter_key[of row_key "rows w" old] assms(1) old
    by (simp add: unique_keys_row_key has_key_eq)
  moreover have "filter (has_key u t) (map (\<lambda>r. if has_key u t r then ?upd r else r) (rows w))
      = map ?upd (filter (has_key u t) (rows w))"
    by (rule filter_map_update) (simp add: has_key_def)
  ultimately have "filter (has_key u t) (map (\<lambda>r. if has_key u t r then ?upd r else r) (rows w))
      = [?upd old]" by simp
  with Some assms(2) old(2) show ?thesis
    by (auto simp: insert_on_conflict_def has_key_def)
qed

lemma save_steps:
  assumes "key_configured e key"
  shows "\<exists>s w1. encryptTokens R e b w = (Inr s, w1) \<and> rows w1 = rows w \<and>
           saveXeroConnection R e u t n b sys w =
             (Inr (fst (insert_on_conflict u t n s sys w1)),
              snd (insert_on_conflict u t n s sys w1))"
proof -
  obtain s w1 where enc: "encryptTokens R e b w = (Inr s, w1)"
    using encryptTokens_ok[OF assms] by blast
  with encrypt_rows[OF enc] show ?thesis
    by (auto simp: saveXeroConnection_def split: prod.splits)
qed

lemma save_unique:
  assumes "key_configured e key" and "unique_keys (rows w)"
  shows "unique_keys (rows (snd (saveXeroConnection R e u t n b sys w)))"
proof -
  obtain s w1 where "rows w1 = rows w"
    "saveXeroConnection R e u t n b sys w =
       (Inr (fst (insert_on_conflict u t n s sys w1)), snd (insert_on_conflict u t n s sys w1))"
    using save_steps[OF assms(1)] by blast
  with insert_on_conflict_keys[of w1 u t n s sys] assms(2) show ?thesis by simp
qed

lemma save_row:
  assumes "key_configured e key" and "gcm_correct R key" and "json_faithful R b"
    and "unique_keys (rows w)"
    and "saveXeroConnection R e u t n b sys w = (res, w')"
  shows "\<exists>r. filter (has_key u t) (rows w') = [r] \<and> bundle_of R e r = Inr b \<and>
             res = Inr \<lparr>id_s = row_id r, tenant_id_s = t, tenant_name_s = n\<rparr>"
proof -
  obtain s w1 where enc: "encryptTokens R e b w = (Inr s, w1)" and rows: "rows w1 = rows w"
    and save: "saveXeroConnection R e u t n b sys w =
       (Inr (fst (insert_on_conflict u t n s sys w1)), snd (insert_on_conflict u t n s sys w1))"
    using save_steps[OF assms(1)] by blast
  from assms(5) save have ioc: "insert_on_conflict u t n s sys w1 = (fst (insert_on_conflict u t n s sys w1), w')"
    and res: "res = Inr (fst (insert_on_conflict u t n s sys w1))"
    by auto
  from insert_on_conflict_row[OF _ ioc] assms(4) rows
  obtain r where r: "filter (has_key u t) (rows w') = [r]"
    "encrypted_tokens r = encrypted s" "encryption_iv r = iv s" "encryption_tag r = tag s"
    "fst (insert_on_conflict u t n s sys w1) = \<lparr>id_s = row_id r, tenant_id_s = t, tenant_name_s = n\<rparr>"
    by auto
  from encrypt_bundle[OF assms(1-3) enc r(2-4)] r(1,5) res show ?thesis by auto
qed

lemma listing_distinct:
  assumes "unique_keys (rows w)"
  shows "distinct (map tenant_id_l (getAllXeroConnections uid w))"
proof -
  let ?mine = "filter (\<lambda>r. user_id r = uid) (rows w)"
  have "distinct (map row_key ?mine)"
    using assms by (simp add: unique_keys_row_key distinct_map_filter)
  then have "distinct (map tenant_id ?mine)"
    by (induction "?mine") (auto simp: row_key_def distinct_map inj_on_def)
  then have "distinct (map tenant_id (sort_key (\<lambda>r. - int (last_synced r)) ?mine))"
    by (metis distinct_map distinct_sort set_sort)
  then show ?thesis
    by (simp add: getAllXeroConnections_def comp_def)
qed

lemma listing_tenant:
  "length (filter (\<lambda>l. tenant_id_l l = t) (getAllXeroConnections uid w))
     = length (filter (has_key uid t) (rows w))"
proof -
  let ?mine = "filter (\<lambda>r. user_id r = uid) (rows w)"
  have "filter (\<lambda>l. tenant_id_l l = t) (getAllXeroConnections uid w)
      = map (\<lambda>r. \<lparr>id_l = row_id r, tenant_id_l = tenant_id r, tenant_name_l = tenant_name r,
               last_synced_l = last_synced r, created_at_l = created_at r\<rparr>)
          (filter (\<lambda>r. tenant_id r = t) (sort_key (\<lambda>r. - int (last_synced r)) ?mine))"
    by (simp add: getAllXeroConnections_def filter_map comp_def)
  moreover have "length (filter (\<lambda>r. tenant_id r = t) (sort_key (\<lambda>r. - int (last_synced r)) ?mine))
      = length (filter (\<lambda>r. tenant_id r = t) ?mine)"
    by (simp add: filter_sort)
  moreover have "filter (\<lambda>r. tenant_id r = t) ?mine = filter (has_key uid t) (rows w)"
    by (simp add: has_key_def[abs_def] conj_commute)
  ultimately show ?thesis by simp
qed

text \<open>
  C6. Two upserts under the same \<open>(user, tenant)\<close> key, the second with bundle \<open>b2\<close>,
  on a table that satisfies its \<^verbatim>\<open>UNIQUE(user_id, tenant_id)\<close> constraint: the key then
  has exactly one row, that row decrypts to \<open>b2\<close>, the listing of the user shows the
  tenant once and no tenant twice, and the second upsert returned the row's id with the
  tenant id and name (a \<open>summary\<close> has no other field).
\<close>

theorem upsert_twice_one_record:
  assumes "key_configured e key" and "gcm_correct R key" and "json_faithful R b2"
    and "unique_keys (rows w)"
    and "saveXeroConnection R e u t n1 b1 sys1 w = (res1, w1)"
    and "saveXeroConnection R e u t n2 b2 sys2 w1 = (res2, w2)"
  shows "(\<exists>r. filter (has_key u t) (rows w2) = [r] \<and> bundle_of R e r = Inr b2 \<and>
              res2 = Inr \<lparr>id_s = row_id r, tenant_id_s = t, tenant_name_s = n2\<rparr>) \<and>
         length (filter (\<lambda>l. tenant_id_l l = t) (getAllXeroConnections u w2)) = 1 \<and>
         distinct (map tenant_id_l (getAllXeroConnections u w2))"
proof -
  have u1: "unique_keys (rows w1)"
    using save_unique[OF assms(1,4), of R u t n1 b1 sys1] assms(5) by simp
  have u2: "unique_keys (rows w2)"
    using save_unique[OF assms(1) u1, of R u t n2 b2 sys2] assms(6) by simp
  from save_row[OF assms(1-3) u1 assms(6)]
  obtain r where r: "filter (has_key u t) (rows w2) = [r]" "bundle_of R e r = Inr b2"
    "res2 = Inr \<lparr>id_s = row_id r, tenant_id_s = t, tenant_name_s = n2\<rparr>"
    by blast
  from r(1) have "length (filter (\<lambda>l. tenant_id_l l = t) (getAllXeroConnections u w2)) = 1"
    by (simp add: listing_tenant)
  with r listing_distinct[OF u2] show ?thesis by blast
qed

theorem upsert_twice_one_record_witness:
  "key_configured sample_env sample_key \<and> gcm_correct sample_runtime sample_key \<and>
   json_faithful sample_runtime fresh_tokens \<and> unique_keys (rows entropy_world) \<and>
   (\<exists>r. filter (has_key 7 ''tenant-1'')
          (rows (snd (saveXeroConnection sample_runtime sample_env 7 ''tenant-1'' ''Acme Ltd''
             fresh_tokens True
             (snd (saveXeroConnection sample_runtime sample_env 7 ''tenant-1'' ''Acme''
                sample_tokens True entropy_world))))) = [r] \<and>
        bundle_of sample_runtime sample_env r = Inr fresh_tokens \<and>
        fst (saveXeroConnection sample_runtime sample_env 7 ''tenant-1'' ''Acme Ltd''
             fresh_tokens True
             (snd (saveXeroConnection sample_runtime sample_env 7 ''tenant-1'' ''Acme''
                sample_tokens True entropy_world)))
          = Inr \<lparr>id_s = row_id r, tenant_id_s = ''tenant-1'', tenant_name_s = ''Acme Ltd''\<rparr>) \<and>
   length (filter (\<lambda>l. tenant_id_l l = ''tenant-1'')
     (getAllXeroConnections 7
        (snd (saveXeroConnection sample_runtime sample_env 7 ''tenant-1'' ''Acme Ltd''
             fresh_tokens True
             (snd (saveXeroConnection sample_runtime sample_env 7 ''tenant-1'' ''Acme''
                sample_tokens True entropy_world)))))) = 1"
proof -
  have u: "unique_keys (rows entropy_world)"
    by (simp add: unique_keys_def entropy_world_def empty_world_def)
  from upsert_twice_one_record[OF sample_key_configured sample_gcm_correct sample_json(2) u
      prod.collapse[symmetric] prod.collapse[symmetric]]
    sample_key_configured sample_gcm_correct sample_json(2) u
  show ?thesis by blast
qed

subsection \<open>The OAuth callback\<close>

text \<open>
  C7. A callback whose \<^verbatim>\<open>state\<close> is absent, or that has no session user, or whose
  \<^verbatim>\<open>state\<close> is not the session user's id, is answered with the failure page for
  \<^verbatim>\<open>Invalid state parameter\<close> and leaves the world as it was: no request to the token
  endpoint is logged, no reply of the provider is consumed, no row is written.
\<close>

theorem callback_state_binding:
  assumes "state_q q = None \<or> session_userId q = None \<or>
           state_q q \<noteq> map_option toString (session_userId q)"
  shows "callback R e q w = (ConnectionFailed (Error ''Invalid state parameter''), w)"
proof -
  from assms have "state_rejected q"
    by (auto simp: state_rejected_def truthy_def split: option.splits)
  then show ?thesis by (simp add: callback_def)
qed

theorem callback_state_binding_witness:
  "(state_q (user7_callback ''8'') = None \<or> session_userId (user7_callback ''8'') = None \<or>
    state_q (user7_callback ''8'') \<noteq> map_option toString (session_userId (user7_callback ''8''))) \<and>
   callback sample_runtime sample_env (user7_callback ''8'') (grant_world sample_tokens [june_org])
     = (ConnectionFailed (Error ''Invalid state parameter''), grant_world sample_tokens [june_org])"
proof -
  have h: "state_q (user7_callback ''8'') = None \<or> session_userId (user7_callback ''8'') = None \<or>
    state_q (user7_callback ''8'') \<noteq> map_option toString (session_userId (user7_callback ''8''))"
    by (simp add: user7_callback_def toString.simps)
  from callback_state_binding[OF h] h show ?thesis by blast
qed

lemma set_insert_by: "set (insert_by cmp x xs) = insert x (set xs)"
  by (induction xs) auto

lemma set_js_sort: "set (js_sort cmp xs) = set xs"
  by (induction xs) (simp_all add: js_sort_def set_insert_by)

lemma sorted_insert_by:
  "sorted_wrt (\<lambda>a b. createdDateUtc b \<le> createdDateUtc a) xs \<Longrightarrow>
   sorted_wrt (\<lambda>a b. createdDateUtc b \<le> createdDateUtc a) (insert_by newest_first x xs)"
  by (induction xs) (auto simp: newest_first_def set_insert_by)

lemma sorted_js_sort:
  "sorted_wrt (\<lambda>a b. createdDateUtc b \<le> createdDateUtc a) (js_sort newest_first xs)"
proof (induction xs)
  case Nil
  show ?case by (simp add: js_sort_def)
next
  case (Cons x xs)
  then show ?case using sorted_insert_by[of "js_sort newest_first xs" x]
    by (simp add: js_sort_def)
qed

lemma js_sort_head:
  assumes "conns \<noteq> []"
  obtains chosen others where "js_sort newest_first conns = chosen # others"
    and "chosen \<in> set conns"
    and "\<forall>c \<in> set conns. createdDateUtc c \<le> createdDateUtc chosen"
proof -
  from assms have "js_sort newest_first conns \<noteq> []"
    using set_js_sort[of newest_first conns] by (metis set_empty)
  then obtain chosen others where eq: "js_sort newest_first conns = chosen # others"
    by (cases "js_sort newest_first conns") auto
  have "chosen \<in> set conns"
    using set_js_sort[of newest_first conns] eq by auto
  moreover have "\<forall>c \<in> set conns. createdDateUtc c \<le> createdDateUtc chosen"
    using sorted_js_sort[of conns] set_js_sort[of newest_first conns] eq by auto
  ultimately show thesis using that eq by blast
qed

lemma toString_nonempty: "toString n \<noteq> []"
  by (subst toString.simps) simp

lemma insert_on_conflict_effect:
  "\<exists>r \<in> set (rows (snd (insert_on_conflict u t n s sys w))).
      has_key u t r \<and> tenant_name r = n \<and> encrypted_tokens r = encrypted s \<and>
      encryption_iv r = iv s \<and> encryption_tag r = tag s"
  "log (snd (insert_on_conflict u t n s sys w)) = log w @ [DbUpsert u t]"
proof -
  show "\<exists>r \<in> set (rows (snd (insert_on_conflict u t n s sys w))).
      has_key u t r \<and> tenant_name r = n \<and> encrypted_tokens r = encrypted s \<and>
      encryption_iv r = iv s \<and> encryption_tag r = tag s"
  proof (cases "find (has_key u t) (rows w)")
    case None
    then show ?thesis by (simp add: insert_on_conflict_def has_key_def)
  next
    case (Some old)
    let ?upd = "\<lambda>r. r\<lparr>tenant_name := n, encrypted_tokens := encrypted s,
                       encryption_iv := iv s, encryption_tag := tag s,
                       is_system_connection := sys, last_synced := clock w\<rparr>"
    from Some have "old \<in> set (rows w)" "has_key u t old" by (auto simp: find_Some_iff)
    then have "?upd old \<in> set (map (\<lambda>r. if has_key u t r then ?upd r else r) (rows w))"
      by (auto simp: image_iff intro!: bexI[of _ old])
    moreover have "has_key u t (?upd old)" using \<open>has_key u t old\<close> by (simp add: has_key_def)
    ultimately show ?thesis using Some
      by (intro bexI[of _ "?upd old"]) (simp_all add: insert_on_conflict_def)
  qed
  show "log (snd (insert_on_conflict u t n s sys w)) = log w @ [DbUpsert u t]"
    by (simp add: insert_on_conflict_def split: option.splits)
qed

lemma save_effect:
  assumes "key_configured e key"
  shows "\<exists>sm. fst (saveXeroConnection R e u t n b sys w) = Inr sm"
    and "\<exists>r \<in> set (rows (snd (saveXeroConnection R e u t n b sys w))).
            has_key u t r \<and> tenant_name r = n"
    and "log (snd (saveXeroConnection R e u t n b sys w)) = log w @ [DbUpsert u t]"
proof -
  obtain s w1 where enc: "encryptTokens R e b w = (Inr s, w1)"
    and save: "saveXeroConnection R e u t n b sys w =
       (Inr (fst (insert_on_conflict u t n s sys w1)), snd (insert_on_conflict u t n s sys w1))"
    using save_steps[OF assms] by blast
  show "\<exists>sm. fst (saveXeroConnection R e u t n b sys w) = Inr sm"
    by (simp add: save)
  show "\<exists>r \<in> set (rows (snd (saveXeroConnection R e u t n b sys w))).
            has_key u t r \<and> tenant_name r = n"
    using insert_on_conflict_effect(1)[of u t n s sys w1] by (auto simp: save)
  show "log (snd (saveXeroConnection R e u t n b sys w)) = log w @ [DbUpsert u t]"
    using encrypt_rows[OF enc] by (simp add: save insert_on_conflict_effect(2))
qed

text \<open>
  C8. A callback that passes the state check, with the encryption key configured, whose
  grant exchange is answered with bundle \<open>t\<close> and whose listing with \<open>conns\<close>: if
  \<open>conns\<close> is not empty, an organization with the greatest \<open>createdDateUtc\<close> is the one
  written to the table (one upsert, under the session user and that tenant) and the
  reply is the redirect; if \<open>conns\<close> is empty the reply is the 400 page for no
  organizations and the table is as it was, with nothing written.
\<close>

theorem newest_org_chosen:
  assumes "session_userId q = Some uid" and "uid \<noteq> 0" and "state_q q = Some (toString uid)"
    and "key_configured e key"
    and "next_reply (token_replies w)
           (AuthorizationCode (code_q q) (PUBLIC_URL e @ ''/callback'')) = Success t"
    and "next_reply (conn_replies w) (bearer (access_token t)) = Success (Some conns)"
  shows "(conns \<noteq> [] \<longrightarrow>
           (\<exists>chosen \<in> set conns.
              (\<forall>c \<in> set conns. createdDateUtc c \<le> createdDateUtc chosen) \<and>
              fst (callback R e q w)
                = Redirect (if isAdmin_q q then ''/admin?connected=true'' else ''/?connected=true'') \<and>
              (\<exists>r \<in> set (rows (snd (callback R e q w))).
                 user_id r = uid \<and> tenant_id r = tenantId_o chosen \<and>
                 tenant_name r = tenantName_o chosen) \<and>
              log (snd (callback R e q w))
                = log w @ [TokenPost (AuthorizationCode (code_q q) (PUBLIC_URL e @ ''/callback'')),
                           ConnGet (bearer (access_token t)),
                           DbUpsert uid (tenantId_o chosen)])) \<and>
         (conns = [] \<longrightarrow>
            fst (callback R e q w) = NoOrganizations \<and>
            status_of (fst (callback R e q w)) = 400 \<and>
            rows (snd (callback R e q w)) = rows w \<and>
            log (snd (callback R e q w))
              = log w @ [TokenPost (AuthorizationCode (code_q q) (PUBLIC_URL e @ ''/callback'')),
                         ConnGet (bearer (access_token t))])"
proof -
  let ?req = "AuthorizationCode (code_q q) (PUBLIC_URL e @ ''/callback'')"
  let ?w1 = "w\<lparr>token_replies := tl (token_replies w), log := log w @ [TokenPost ?req]\<rparr>"
  let ?w2 = "?w1\<lparr>conn_replies := tl (conn_replies w),
                 log := log ?w1 @ [ConnGet (bearer (access_token t))]\<rparr>"
  have ok: "\<not> state_rejected q"
    using assms(1-3) toString_nonempty[of uid] by (simp add: state_rejected_def truthy_def)
  have pt: "post_token ?req w = (Inr t, ?w1)"
    using assms(5) by (simp add: post_token_def settle_def)
  have gc: "get_connections (bearer (access_token t)) ?w1 = (Inr (Some conns), ?w2)"
    using assms(6) by (simp add: get_connections_def settle_def)
  show ?thesis
  proof (intro conjI impI)
    assume "conns = []"
    then show "fst (callback R e q w) = NoOrganizations"
      "status_of (fst (callback R e q w)) = 400"
      "rows (snd (callback R e q w)) = rows w"
      "log (snd (callback R e q w)) = log w @ [TokenPost ?req, ConnGet (bearer (access_token t))]"
      using ok assms(1) by (simp_all add: callback_def pt gc)
  next
    assume ne: "conns \<noteq> []"
    from js_sort_head[OF ne] obtain chosen others where
      srt: "js_sort newest_first conns = chosen # others" and mem: "chosen \<in> set conns"
      and mx: "\<forall>c \<in> set conns. createdDateUtc c \<le> createdDateUtc chosen"
      by blast
    let ?save = "saveXeroConnection R e uid (tenantId_o chosen) (tenantName_o chosen) t
                   (isAdmin_q q) ?w2"
    obtain sm where sm: "fst ?save = Inr sm"
      using save_effect(1)[OF assms(4)] by blast
    then have cb: "callback R e q w =
        (Redirect (if isAdmin_q q then ''/admin?connected=true'' else ''/?connected=true''),
         snd ?save)"
      using ok assms(1) ne
      by (cases ?save) (simp add: callback_def pt gc srt)
    have "\<exists>r \<in> set (rows (snd ?save)). user_id r = uid \<and> tenant_id r = tenantId_o chosen \<and>
            tenant_name r = tenantName_o chosen"
      using save_effect(2)[OF assms(4), of R uid "tenantId_o chosen" "tenantName_o chosen" t
          "isAdmin_q q" ?w2]
      by (auto simp: has_key_def)
    moreover have "log (snd ?save) = log w @ [TokenPost ?req, ConnGet (bearer (access_token t)),
        DbUpsert uid (tenantId_o chosen)]"
      using save_effect(3)[OF assms(4), of R uid "tenantId_o chosen" "tenantName_o chosen" t
          "isAdmin_q q" ?w2]
      by simp
    ultimately show "\<exists>chosen \<in> set conns.
              (\<forall>c \<in> set conns. createdDateUtc c \<le> createdDateUtc chosen) \<and>
              fst (callback R e q w)
                = Redirect (if isAdmin_q q then ''/admin?connected=true'' else ''/?connected=true'') \<and>
              (\<exists>r \<in> set (rows (snd (callback R e q w))).
                 user_id r = uid \<and> tenant_id r = tenantId_o chosen \<and>
                 tenant_name r = tenantName_o chosen) \<and>
              log (snd (callback R e q w))
                = log w @ [TokenPost ?req, ConnGet (bearer (access_token t)),
                           DbUpsert uid (tenantId_o chosen)]"
      using mem mx unfolding cb by (intro bexI[of _ chosen]) simp_all
  qed
qed

text \<open>
  The witness is the spec's scenario E: organizations created on 2024-01-01 and on
  2024-06-01; the upsert is for the one of 2024-06-01.
\<close>

theorem newest_org_chosen_witness:
  "session_userId (user7_callback ''7'') = Some 7 \<and> (7::nat) \<noteq> 0 \<and>
   state_q (user7_callback ''7'') = Some (toString 7) \<and>
   key_configured sample_env sample_key \<and>
   next_reply (token_replies (grant_world sample_tokens [january_org, june_org]))
     (AuthorizationCode (code_q (user7_callback ''7'')) (PUBLIC_URL sample_env @ ''/callback''))
     = Success sample_tokens \<and>
   next_reply (conn_replies (grant_world sample_tokens [january_org, june_org]))
     (bearer (access_token sample_tokens)) = Success (Some [january_org, june_org]) \<and>
   fst (callback sample_runtime sample_env (user7_callback ''7'')
          (grant_world sample_tokens [january_org, june_org]))
     = Redirect ''/admin?connected=true'' \<and>
   log (snd (callback sample_runtime sample_env (user7_callback ''7'')
          (grant_world sample_tokens [january_org, june_org])))
     = [TokenPost (AuthorizationCode (Some ''code-1'') ''http://localhost:3000/callback''),
        ConnGet ''Bearer at1'', DbUpsert 7 ''tenant-jun'']"
proof -
  let ?q = "user7_callback ''7''" and ?w = "grant_world sample_tokens [january_org, june_org]"
  have h: "session_userId ?q = Some 7" "(7::nat) \<noteq> 0" "state_q ?q = Some (toString 7)"
    by (simp_all add: user7_callback_def toString.simps)
  have tr: "next_reply (token_replies ?w)
              (AuthorizationCode (code_q ?q) (PUBLIC_URL sample_env @ ''/callback''))
              = Success sample_tokens"
    and cr: "next_reply (conn_replies ?w) (bearer (access_token sample_tokens))
              = Success (Some [january_org, june_org])"
    and lg: "log ?w = []"
    by (simp_all add: grant_world_def entropy_world_def empty_world_def next_reply_def)
  from newest_org_chosen[OF h sample_key_configured tr cr, of sample_runtime]
  obtain chosen where c: "chosen \<in> {january_org, june_org}"
    "createdDateUtc january_org \<le> createdDateUtc chosen"
    "createdDateUtc june_org \<le> createdDateUtc chosen"
    "fst (callback sample_runtime sample_env ?q ?w)
       = Redirect (if isAdmin_q ?q then ''/admin?connected=true'' else ''/?connected=true'')"
    "log (snd (callback sample_runtime sample_env ?q ?w))
       = log ?w @ [TokenPost (AuthorizationCode (code_q ?q) (PUBLIC_URL sample_env @ ''/callback'')),
                   ConnGet (bearer (access_token sample_tokens)),
                   DbUpsert 7 (tenantId_o chosen)]"
    by auto
  from c(1-3) have chosen: "chosen = june_org"
    by (auto simp: january_org_def june_org_def)
  have adm: "isAdmin_q ?q"
    and req: "AuthorizationCode (code_q ?q) (PUBLIC_URL sample_env @ ''/callback'')
                = AuthorizationCode (Some ''code-1'') ''http://localhost:3000/callback''"
    and auth: "bearer (access_token sample_tokens) = ''Bearer at1''"
    and jun: "tenantId_o june_org = ''tenant-jun''"
    by (simp_all add: user7_callback_def sample_env_def bearer_def sample_tokens_def june_org_def)
  from c(4,5) have
    "fst (callback sample_runtime sample_env ?q ?w) = Redirect ''/admin?connected=true''"
    "log (snd (callback sample_runtime sample_env ?q ?w))
       = [TokenPost (AuthorizationCode (Some ''code-1'') ''http://localhost:3000/callback''),
          ConnGet ''Bearer at1'', DbUpsert 7 ''tenant-jun'']"
    unfolding chosen req auth jun lg using adm by simp_all
  with h sample_key_configured tr cr show ?thesis by blast
qed

subsection \<open>The request pipeline\<close>

lemma most_recent_mem: "most_recent rs = Some r \<Longrightarrow> r \<in> set rs"
  by (induction rs arbitrary: r) (auto split: option.splits if_splits)

lemma decrypt_ok_key: "decryptTokens R e enc ivs tags = Inr t \<Longrightarrow> \<exists>key. key_configured e key"
  by (auto simp: decryptTokens_def key_configured_def key_bytes_def createDecipheriv_def
      createCipheriv_def Let_def split: option.splits if_splits)

lemma read_connection_Some:
  assumes "read_connection R e found = Inr (Some c)"
  obtains r where "found = Some r" and "bundle_of R e r = Inr (tokens_c c)"
    and "userId c = user_id r" and "tenantId c = tenant_id r"
  using assms by (auto simp: read_connection_def bundle_of_def split: option.splits sum.splits)

text \<open>What a successful \<^verbatim>\<open>ensureValidToken\<close> read: a row of the table and its bundle.\<close>

lemma ensureValidToken_row:
  assumes "ensureValidToken R e uid isAdmin tid w = Inr ti"
  obtains r t where "r \<in> set (rows w)" and "bundle_of R e r = Inr t"
    and "accessToken ti = access_token t" and "refreshToken ti = refresh_token t"
    and "connectionUserId ti = user_id r" and "tenantId_t ti = tenant_id r"
proof -
  let ?found = "if isAdmin then getXeroConnection R e uid tid w else getSystemXeroConnection R e w"
  from assms obtain c where c: "?found = Inr (Some c)"
    and ti: "ti = \<lparr>accessToken = access_token (tokens_c c), refreshToken = refresh_token (tokens_c c),
                   tenantId_t = tenantId c, connectionUserId = userId c\<rparr>"
    by (auto simp: ensureValidToken_def split: sum.splits option.splits)
  from c obtain rs where "read_connection R e (most_recent rs) = Inr (Some c)" "set rs \<subseteq> set (rows w)"
    by (auto simp: getXeroConnection_def getSystemXeroConnection_def split: if_splits)
  then obtain r where "most_recent rs = Some r" "bundle_of R e r = Inr (tokens_c c)"
    "userId c = user_id r" "tenantId c = tenant_id r" "r \<in> set (rows w)"
    using most_recent_mem by (elim read_connection_Some) blast
  with that[of r "tokens_c c"] ti show thesis by simp
qed

lemma ensureValidToken_key:
  assumes "ensureValidToken R e uid isAdmin tid w = Inr ti"
  shows "\<exists>key. key_configured e key"
  using ensureValidToken_row[OF assms] decrypt_ok_key unfolding bundle_of_def by metis

lemma update_steps:
  assumes "key_configured e key"
  shows "\<exists>s w1. encryptTokens R e t w = (Inr s, w1) \<and>
           updateXeroTokens R e uid tid t w = (Inr (), update_tokens uid tid s w1)"
proof -
  obtain s w1 where enc: "encryptTokens R e t w = (Inr s, w1)"
    using encryptTokens_ok[OF assms] by blast
  then show ?thesis by (auto simp: updateXeroTokens_def)
qed

text \<open>
  A successful refresh: one request to the token endpoint, then the new bundle sealed
  into the rows of the owner and tenant, and nothing else.
\<close>

lemma refresh_success:
  assumes "key_configured e key"
    and "next_reply (token_replies w) (RefreshToken rt) = Success nt"
  shows "\<exists>s w1. encryptTokens R e nt
                  (w\<lparr>token_replies := tl (token_replies w),
                     log := log w @ [TokenPost (RefreshToken rt)]\<rparr>) = (Inr s, w1) \<and>
           refreshAccessToken R e uid tid rt w =
             (Inr (access_token nt), update_tokens uid tid s w1)"
proof -
  let ?w1 = "w\<lparr>token_replies := tl (token_replies w), log := log w @ [TokenPost (RefreshToken rt)]\<rparr>"
  have pt: "post_token (RefreshToken rt) w = (Inr nt, ?w1)"
    using assms(2) by (simp add: post_token_def settle_def)
  from update_steps[OF assms(1), of R nt ?w1 uid tid] pt show ?thesis
    by (auto simp: refreshAccessToken_def)
qed

lemma refresh_failure:
  assumes "next_reply (token_replies w) (RefreshToken rt) = Failure st b"
  shows "refreshAccessToken R e uid tid rt w =
           (Inl (AxiosError XERO_TOKEN (Some (st, b))),
            w\<lparr>token_replies := tl (token_replies w),
              log := log w @ [TokenPost (RefreshToken rt)]\<rparr>)"
  using assms by (simp add: refreshAccessToken_def post_token_def settle_def)

lemma first_call_failure:
  assumes "next_reply (api_replies w) (api_request_for ti meth urlPath config at) = Failure st b"
  shows "makeRequest ti meth urlPath config at w =
           (Inl (AxiosError XERO_API (Some (st, b))),
            w\<lparr>api_replies := tl (api_replies w),
              log := log w @ [ApiCall (api_request_for ti meth urlPath config at)]\<rparr>)"
  using assms by (simp add: makeRequest_def axios_def settle_def)

lemma pipeline_without_refresh_token:
  assumes "ensureValidToken R e uid isAdmin None w = Inr ti"
    and "refreshToken ti = None \<or> refreshToken ti = Some []"
    and "next_reply (api_replies w) (api_request_for ti meth urlPath config (accessToken ti))
           = Failure 401 b"
  shows "xeroRequest R e uid isAdmin meth urlPath config w =
           (Inl (AxiosError XERO_API (Some (401, b))),
            w\<lparr>api_replies := tl (api_replies w),
              log := log w @ [ApiCall (api_request_for ti meth urlPath config (accessToken ti))]\<rparr>)"
proof -
  from assms(2) have "\<not> truthy (refreshToken ti)" by (auto simp: truthy_def)
  then show ?thesis
    by (simp add: xeroRequest_def assms(1) first_call_failure[OF assms(3)])
qed

text \<open>
  C10. With a stored bundle whose refresh token is missing or empty, a 401 from the
  provider is returned to the caller as it is: the call made one API request and no
  request to the token endpoint, consumed no token reply and wrote no row.
\<close>

theorem no_refresh_token_no_refresh:
  assumes "ensureValidToken R e uid isAdmin None w = Inr ti"
    and "refreshToken ti = None \<or> refreshToken ti = Some []"
    and "next_reply (api_replies w) (api_request_for ti meth urlPath config (accessToken ti))
           = Failure 401 b"
  shows "xeroRequest R e uid isAdmin meth urlPath config w =
           (Inl (AxiosError XERO_API (Some (401, b))),
            w\<lparr>api_replies := tl (api_replies w),
              log := log w @ [ApiCall (api_request_for ti meth urlPath config (accessToken ti))]\<rparr>)"
  using assms by (rule pipeline_without_refresh_token)

lemma stored_world_rows:
  assumes "json_faithful sample_runtime t"
  shows "\<exists>r. rows (stored_world t api tok) = [r] \<and> user_id r = 7 \<and>
             tenant_id r = ''tenant-1'' \<and> is_system_connection r \<and>
             bundle_of sample_runtime sample_env r = Inr t"
proof -
  let ?save = "saveXeroConnection sample_runtime sample_env 7 ''tenant-1'' ''Acme'' t True
                 entropy_world"
  have u: "unique_keys (rows entropy_world)"
    by (simp add: unique_keys_def entropy_world_def empty_world_def)
  from save_row[OF sample_key_configured sample_gcm_correct assms u prod.collapse[symmetric]]
  obtain r where r: "filter (has_key 7 ''tenant-1'') (rows (snd ?save)) = [r]"
    "bundle_of sample_runtime sample_env r = Inr t" by blast
  obtain s w1 where w1: "rows w1 = rows entropy_world"
    and save: "?save = (Inr (fst (insert_on_conflict 7 ''tenant-1'' ''Acme'' s True w1)),
                        snd (insert_on_conflict 7 ''tenant-1'' ''Acme'' s True w1))"
    using save_steps[OF sample_key_configured] by blast
  from w1 have "rows w1 = []" by (simp add: entropy_world_def empty_world_def)
  then have "\<exists>r'. rows (snd ?save) = [r'] \<and> has_key 7 ''tenant-1'' r' \<and> is_system_connection r'"
    by (simp add: save insert_on_conflict_def has_key_def)
  with r show ?thesis by (auto simp: stored_world_def has_key_def)
qed

lemma stored_world_token:
  assumes "json_faithful sample_runtime t"
  shows "ensureValidToken sample_runtime sample_env 7 isAdmin None (stored_world t api tok) =
           Inr \<lparr>accessToken = access_token t, refreshToken = refresh_token t,
                tenantId_t = ''tenant-1'', connectionUserId = 7\<rparr>"
proof -
  from stored_world_rows[OF assms] obtain r where
    "rows (stored_world t api tok) = [r]" "user_id r = 7" "tenant_id r = ''tenant-1''"
    "is_system_connection r" "bundle_of sample_runtime sample_env r = Inr t"
    by blast
  then show ?thesis
    by (simp add: ensureValidToken_def getXeroConnection_def getSystemXeroConnection_def
        read_connection_def truthy_def bundle_of_def)
qed

lemma stored_world_system_token:
  assumes "json_faithful sample_runtime t"
  shows "ensureValidToken sample_runtime sample_env uid False None (stored_world t api tok) =
           Inr \<lparr>accessToken = access_token t, refreshToken = refresh_token t,
                tenantId_t = ''tenant-1'', connectionUserId = 7\<rparr>"
proof -
  from stored_world_rows[OF assms] obtain r where
    "rows (stored_world t api tok) = [r]" "user_id r = 7" "tenant_id r = ''tenant-1''"
    "is_system_connection r" "bundle_of sample_runtime sample_env r = Inr t"
    by blast
  then show ?thesis
    by (simp add: ensureValidToken_def getSystemXeroConnection_def
        read_connection_def bundle_of_def)
qed

lemma stored_world_log:
  "log (stored_world t api tok) = [DbUpsert 7 ''tenant-1'']"
  "api_replies (stored_world t api tok) = api"
  "token_replies (stored_world t api tok) = tok"
  using save_effect(3)[OF sample_key_configured, of sample_runtime 7 "''tenant-1''" "''Acme''" t True
      entropy_world]
  by (simp_all add: stored_world_def entropy_world_def empty_world_def)

theorem no_refresh_token_no_refresh_witness:
  "ensureValidToken sample_runtime sample_env 7 True None
     (stored_world lone_tokens [\<lambda>req. Failure 401 ''unauthorized''] [\<lambda>req. Success fresh_tokens])
     = Inr \<lparr>accessToken = Some ''at3'', refreshToken = None, tenantId_t = ''tenant-1'',
            connectionUserId = 7\<rparr> \<and>
   next_reply
     (api_replies (stored_world lone_tokens [\<lambda>req. Failure 401 ''unauthorized'']
                     [\<lambda>req. Success fresh_tokens]))
     (api_request_for \<lparr>accessToken = Some ''at3'', refreshToken = None,
                        tenantId_t = ''tenant-1'', connectionUserId = 7\<rparr>
        ''get'' ''/Items'' [] (Some ''at3'')) = Failure 401 ''unauthorized'' \<and>
   fst (xeroRequest sample_runtime sample_env 7 True ''get'' ''/Items'' []
     (stored_world lone_tokens [\<lambda>req. Failure 401 ''unauthorized''] [\<lambda>req. Success fresh_tokens]))
     = Inl (AxiosError XERO_API (Some (401, ''unauthorized''))) \<and>
   log (snd (xeroRequest sample_runtime sample_env 7 True ''get'' ''/Items'' []
     (stored_world lone_tokens [\<lambda>req. Failure 401 ''unauthorized''] [\<lambda>req. Success fresh_tokens])))
     = [DbUpsert 7 ''tenant-1'',
        ApiCall \<lparr>http_method = ''get'', url = ''https://api.xero.com/api.xro/2.0/Items'',
                 authorization = ''Bearer at3'', xero_tenant_id = ''tenant-1'', body = []\<rparr>]"
proof -
  let ?w = "stored_world lone_tokens [\<lambda>req. Failure 401 ''unauthorized''] [\<lambda>req. Success fresh_tokens]"
  let ?ti = "\<lparr>accessToken = Some ''at3'', refreshToken = None, tenantId_t = ''tenant-1'',
              connectionUserId = 7\<rparr>"
  have ev: "ensureValidToken sample_runtime sample_env 7 True None ?w = Inr ?ti"
    using stored_world_token[OF sample_json(3)] by (simp add: lone_tokens_def)
  have rt: "refreshToken ?ti = None \<or> refreshToken ?ti = Some []" by simp
  have rp: "next_reply (api_replies ?w) (api_request_for ?ti ''get'' ''/Items'' [] (accessToken ?ti))
              = Failure 401 ''unauthorized''"
    by (simp add: stored_world_log next_reply_def)
  from no_refresh_token_no_refresh[OF ev rt rp] ev rp show ?thesis
    by (simp add: stored_world_log api_request_for_def bearer_def)
qed

lemma update_tokens_effect:
  "rows (update_tokens uid tid s w) =
     map (\<lambda>r. if has_key uid tid r
               then r\<lparr>encrypted_tokens := encrypted s, encryption_iv := iv s,
                      encryption_tag := tag s, last_synced := clock w\<rparr>
               else r) (rows w)"
  "log (update_tokens uid tid s w) = log w @ [DbUpdate uid tid]"
  "api_replies (update_tokens uid tid s w) = api_replies w"
  "token_replies (update_tokens uid tid s w) = token_replies w"
  by (simp_all add: update_tokens_def)

text \<open>
  C3. The stored refresh token is truthy, the first response is a 401 and the provider
  rejects the refresh request with status \<open>st\<close> and body \<open>b'\<close>: the call fails with the
  token endpoint's rejection itself, and the table is exactly as it was. One API request
  and one token request were made; the request was not retried.
\<close>

theorem refresh_rejected_record_untouched:
  assumes "ensureValidToken R e uid isAdmin None w = Inr ti"
    and "truthy (refreshToken ti)"
    and "next_reply (api_replies w) (api_request_for ti meth urlPath config (accessToken ti))
           = Failure 401 b"
    and "next_reply (token_replies w) (RefreshToken (refreshToken ti)) = Failure st b'"
  shows "fst (xeroRequest R e uid isAdmin meth urlPath config w)
           = Inl (AxiosError XERO_TOKEN (Some (st, b'))) \<and>
         rows (snd (xeroRequest R e uid isAdmin meth urlPath config w)) = rows w \<and>
         log (snd (xeroRequest R e uid isAdmin meth urlPath config w))
           = log w @ [ApiCall (api_request_for ti meth urlPath config (accessToken ti)),
                      TokenPost (RefreshToken (refreshToken ti))]"
proof -
  let ?w1 = "w\<lparr>api_replies := tl (api_replies w),
               log := log w @ [ApiCall (api_request_for ti meth urlPath config (accessToken ti))]\<rparr>"
  have "next_reply (token_replies ?w1) (RefreshToken (refreshToken ti)) = Failure st b'"
    using assms(4) by simp
  from refresh_failure[OF this] show ?thesis
    by (simp add: xeroRequest_def assms(1,2) first_call_failure[OF assms(3)] response_status_def)
qed

theorem refresh_rejected_record_untouched_witness:
  "ensureValidToken sample_runtime sample_env 7 True None
     (stored_world sample_tokens [\<lambda>req. Failure 401 ''unauthorized'']
        [\<lambda>req. Failure 400 ''{error:invalid_grant}''])
     = Inr \<lparr>accessToken = Some ''at1'', refreshToken = Some ''rt1'', tenantId_t = ''tenant-1'',
            connectionUserId = 7\<rparr> \<and>
   truthy (Some ''rt1'') \<and>
   fst (xeroRequest sample_runtime sample_env 7 True ''get'' ''/Items'' []
     (stored_world sample_tokens [\<lambda>req. Failure 401 ''unauthorized'']
        [\<lambda>req. Failure 400 ''{error:invalid_grant}'']))
     = Inl (AxiosError XERO_TOKEN (Some (400, ''{error:invalid_grant}''))) \<and>
   rows (snd (xeroRequest sample_runtime sample_env 7 True ''get'' ''/Items'' []
     (stored_world sample_tokens [\<lambda>req. Failure 401 ''unauthorized'']
        [\<lambda>req. Failure 400 ''{error:invalid_grant}''])))
     = rows (stored_world sample_tokens [\<lambda>req. Failure 401 ''unauthorized'']
        [\<lambda>req. Failure 400 ''{error:invalid_grant}'']) \<and>
   log (snd (xeroRequest sample_runtime sample_env 7 True ''get'' ''/Items'' []
     (stored_world sample_tokens [\<lambda>req. Failure 401 ''unauthorized'']
        [\<lambda>req. Failure 400 ''{error:invalid_grant}''])))
     = [DbUpsert 7 ''tenant-1'',
        ApiCall \<lparr>http_method = ''get'', url = ''https://api.xero.com/api.xro/2.0/Items'',
                 authorization = ''Bearer at1'', xero_tenant_id = ''tenant-1'', body = []\<rparr>,
        TokenPost (RefreshToken (Some ''rt1''))]"
proof -
  let ?w = "stored_world sample_tokens [\<lambda>req. Failure 401 ''unauthorized'']
              [\<lambda>req. Failure 400 ''{error:invalid_grant}'']"
  let ?ti = "\<lparr>accessToken = Some ''at1'', refreshToken = Some ''rt1'', tenantId_t = ''tenant-1'',
              connectionUserId = 7\<rparr>"
  have ev: "ensureValidToken sample_runtime sample_env 7 True None ?w = Inr ?ti"
    using stored_world_token[OF sample_json(1)] by (simp add: sample_tokens_def)
  have rt: "truthy (refreshToken ?ti)" by (simp add: truthy_def)
  have rp: "next_reply (api_replies ?w) (api_request_for ?ti ''get'' ''/Items'' [] (accessToken ?ti))
              = Failure 401 ''unauthorized''"
    by (simp add: stored_world_log next_reply_def)
  have tp: "next_reply (token_replies ?w) (RefreshToken (refreshToken ?ti))
              = Failure 400 ''{error:invalid_grant}''"
    by (simp add: stored_world_log next_reply_def)
  from refresh_rejected_record_untouched[OF ev rt rp tp] ev rt show ?thesis
    by (simp add: stored_world_log api_request_for_def bearer_def)
qed

text \<open>
  The pipeline call after a 401 and a successful refresh: what it returns, what it
  logged, and the rows it left.
\<close>

lemma xeroRequest_refresh:
  assumes ev: "ensureValidToken R e uid isAdmin None w = Inr ti"
    and key: "key_configured e key"
    and rt: "truthy (refreshToken ti)"
    and first: "next_reply (api_replies w) (api_request_for ti meth urlPath config (accessToken ti))
                  = Failure 401 b"
    and tok: "next_reply (token_replies w) (RefreshToken (refreshToken ti)) = Success nt"
  shows "\<exists>s w0 w1. encryptTokens R e nt w0 = (Inr s, w1) \<and>
           fst (xeroRequest R e uid isAdmin meth urlPath config w)
             = settle XERO_API (next_reply (tl (api_replies w))
                 (api_request_for ti meth urlPath config (access_token nt))) \<and>
           log (snd (xeroRequest R e uid isAdmin meth urlPath config w))
             = log w @ [ApiCall (api_request_for ti meth urlPath config (accessToken ti)),
                        TokenPost (RefreshToken (refreshToken ti)),
                        DbUpdate (connectionUserId ti) (tenantId_t ti),
                        ApiCall (api_request_for ti meth urlPath config (access_token nt))] \<and>
           rows (snd (xeroRequest R e uid isAdmin meth urlPath config w))
             = map (\<lambda>r. if has_key (connectionUserId ti) (tenantId_t ti) r
                       then r\<lparr>encrypted_tokens := encrypted s, encryption_iv := iv s,
                              encryption_tag := tag s, last_synced := clock w\<rparr>
                       else r) (rows w)"
proof -
  let ?req1 = "api_request_for ti meth urlPath config (accessToken ti)"
  let ?w1 = "w\<lparr>api_replies := tl (api_replies w), log := log w @ [ApiCall ?req1]\<rparr>"
  let ?w2 = "?w1\<lparr>token_replies := tl (token_replies ?w1),
                 log := log ?w1 @ [TokenPost (RefreshToken (refreshToken ti))]\<rparr>"
  have "next_reply (token_replies ?w1) (RefreshToken (refreshToken ti)) = Success nt"
    using tok by simp
  from refresh_success[OF key this, of R "connectionUserId ti" "tenantId_t ti"]
  obtain s w3 where enc: "encryptTokens R e nt ?w2 = (Inr s, w3)"
    and ref: "refreshAccessToken R e (connectionUserId ti) (tenantId_t ti) (refreshToken ti) ?w1
                = (Inr (access_token nt), update_tokens (connectionUserId ti) (tenantId_t ti) s w3)"
    by blast
  note same = encrypt_rows[OF enc]
  have run: "xeroRequest R e uid isAdmin meth urlPath config w =
      makeRequest ti meth urlPath config (access_token nt)
        (update_tokens (connectionUserId ti) (tenantId_t ti) s w3)"
    by (simp add: xeroRequest_def ev rt first_call_failure[OF first] response_status_def ref)
  show ?thesis
    using enc
    by (intro exI[of _ s] exI[of _ ?w2] exI[of _ w3])
      (simp add: run makeRequest_def axios_def update_tokens_effect same)
qed

text \<open>
  C1, as amended. For a pipeline call that found a record, with the key configured and
  the contracts of the cipher and of JSON for the new bundle: if the first response is a
  401, the stored refresh token is truthy and the refresh exchange is answered with
  bundle \<open>nt\<close>, the call makes exactly one token request, then updates the rows of the
  record's owner and tenant (which then decrypt to \<open>nt\<close>; there is such a row), then
  retries the request once with the new access token, and returns the outcome of that
  retry as it is, success or failure. If the first response has another failure status
  the call returns that failure at once: one API request, no token request.
\<close>

theorem refresh_once_retry_once:
  assumes "ensureValidToken R e uid isAdmin None w = Inr ti"
    and "key_configured e key" and "gcm_correct R key" and "json_faithful R nt"
  shows "(next_reply (api_replies w) (api_request_for ti meth urlPath config (accessToken ti))
            = Failure 401 b \<and> truthy (refreshToken ti) \<and>
          next_reply (token_replies w) (RefreshToken (refreshToken ti)) = Success nt \<longrightarrow>
            fst (xeroRequest R e uid isAdmin meth urlPath config w)
              = settle XERO_API (next_reply (tl (api_replies w))
                  (api_request_for ti meth urlPath config (access_token nt))) \<and>
            log (snd (xeroRequest R e uid isAdmin meth urlPath config w))
              = log w @ [ApiCall (api_request_for ti meth urlPath config (accessToken ti)),
                         TokenPost (RefreshToken (refreshToken ti)),
                         DbUpdate (connectionUserId ti) (tenantId_t ti),
                         ApiCall (api_request_for ti meth urlPath config (access_token nt))] \<and>
            (\<exists>r \<in> set (rows (snd (xeroRequest R e uid isAdmin meth urlPath config w))).
               has_key (connectionUserId ti) (tenantId_t ti) r) \<and>
            (\<forall>r \<in> set (rows (snd (xeroRequest R e uid isAdmin meth urlPath config w))).
               has_key (connectionUserId ti) (tenantId_t ti) r \<longrightarrow> bundle_of R e r = Inr nt)) \<and>
         (next_reply (api_replies w) (api_request_for ti meth urlPath config (accessToken ti))
            = Failure st b \<and> st \<noteq> 401 \<longrightarrow>
            xeroRequest R e uid isAdmin meth urlPath config w
              = (Inl (AxiosError XERO_API (Some (st, b))),
                 w\<lparr>api_replies := tl (api_replies w),
                   log := log w @ [ApiCall (api_request_for ti meth urlPath config
                                              (accessToken ti))]\<rparr>))"
proof (intro conjI impI)
  assume "next_reply (api_replies w) (api_request_for ti meth urlPath config (accessToken ti))
            = Failure st b \<and> st \<noteq> 401"
  then show "xeroRequest R e uid isAdmin meth urlPath config w
              = (Inl (AxiosError XERO_API (Some (st, b))),
                 w\<lparr>api_replies := tl (api_replies w),
                   log := log w @ [ApiCall (api_request_for ti meth urlPath config
                                              (accessToken ti))]\<rparr>)"
    by (simp add: xeroRequest_def assms(1) first_call_failure response_status_def)
next
  let ?x = "xeroRequest R e uid isAdmin meth urlPath config w"
  let ?own = "has_key (connectionUserId ti) (tenantId_t ti)"
  assume h: "next_reply (api_replies w) (api_request_for ti meth urlPath config (accessToken ti))
            = Failure 401 b \<and> truthy (refreshToken ti) \<and>
          next_reply (token_replies w) (RefreshToken (refreshToken ti)) = Success nt"
  from xeroRequest_refresh[OF assms(1,2), of meth urlPath config b nt] h
  obtain s w0 w1 where enc: "encryptTokens R e nt w0 = (Inr s, w1)"
    and res: "fst ?x = settle XERO_API (next_reply (tl (api_replies w))
                 (api_request_for ti meth urlPath config (access_token nt)))"
    and lg: "log (snd ?x)
             = log w @ [ApiCall (api_request_for ti meth urlPath config (accessToken ti)),
                        TokenPost (RefreshToken (refreshToken ti)),
                        DbUpdate (connectionUserId ti) (tenantId_t ti),
                        ApiCall (api_request_for ti meth urlPath config (access_token nt))]"
    and rws: "rows (snd ?x)
             = map (\<lambda>r. if ?own r
                       then r\<lparr>encrypted_tokens := encrypted s, encryption_iv := iv s,
                              encryption_tag := tag s, last_synced := clock w\<rparr>
                       else r) (rows w)"
    by blast
  show "fst ?x = settle XERO_API (next_reply (tl (api_replies w))
                  (api_request_for ti meth urlPath config (access_token nt)))"
    by (rule res)
  show "log (snd ?x)
              = log w @ [ApiCall (api_request_for ti meth urlPath config (accessToken ti)),
                         TokenPost (RefreshToken (refreshToken ti)),
                         DbUpdate (connectionUserId ti) (tenantId_t ti),
                         ApiCall (api_request_for ti meth urlPath config (access_token nt))]"
    by (rule lg)
  from ensureValidToken_row[OF assms(1)] obtain r0 where "r0 \<in> set (rows w)" "?own r0"
    by (metis has_key_def)
  then have "?own (r0\<lparr>encrypted_tokens := encrypted s, encryption_iv := iv s,
                       encryption_tag := tag s, last_synced := clock w\<rparr>)"
     and "r0\<lparr>encrypted_tokens := encrypted s, encryption_iv := iv s,
             encryption_tag := tag s, last_synced := clock w\<rparr> \<in> set (rows (snd ?x))"
    unfolding rws by (auto simp: has_key_def image_iff intro!: bexI[of _ r0])
  then show "\<exists>r \<in> set (rows (snd ?x)). ?own r" by blast
  show "\<forall>r \<in> set (rows (snd ?x)). ?own r \<longrightarrow> bundle_of R e r = Inr nt"
  proof (intro ballI impI)
    fix r assume "r \<in> set (rows (snd ?x))" "?own r"
    then obtain r0 where "r0 \<in> set (rows w)" "?own r0"
      "r = r0\<lparr>encrypted_tokens := encrypted s, encryption_iv := iv s,
              encryption_tag := tag s, last_synced := clock w\<rparr>"
      unfolding rws by (auto simp: has_key_def split: if_splits)
    then show "bundle_of R e r = Inr nt"
      using encrypt_bundle[OF assms(2-4) enc, of r] by simp
  qed
qed

text \<open>
  The witness has the spec's scenario C (401, refresh, retried call succeeds), a second
  401 after the refresh, a first response with status 500, and the call of user 99, who
  is no administrator and so uses the system connection of user 7: the update is
  attributed to user 7.
\<close>

theorem refresh_once_retry_once_witness:
  "ensureValidToken sample_runtime sample_env 7 True None
     (stored_world sample_tokens [\<lambda>req. Failure 401 ''expired'', \<lambda>req. Success ''{Items:[]}'']
        [\<lambda>req. Success fresh_tokens])
     = Inr \<lparr>accessToken = Some ''at1'', refreshToken = Some ''rt1'', tenantId_t = ''tenant-1'',
            connectionUserId = 7\<rparr> \<and>
   key_configured sample_env sample_key \<and> gcm_correct sample_runtime sample_key \<and>
   json_faithful sample_runtime fresh_tokens \<and>
   fst (xeroRequest sample_runtime sample_env 7 True ''get'' ''/Items'' []
     (stored_world sample_tokens [\<lambda>req. Failure 401 ''expired'', \<lambda>req. Success ''{Items:[]}'']
        [\<lambda>req. Success fresh_tokens])) = Inr ''{Items:[]}'' \<and>
   log (snd (xeroRequest sample_runtime sample_env 7 True ''get'' ''/Items'' []
     (stored_world sample_tokens [\<lambda>req. Failure 401 ''expired'', \<lambda>req. Success ''{Items:[]}'']
        [\<lambda>req. Success fresh_tokens])))
     = [DbUpsert 7 ''tenant-1'',
        ApiCall \<lparr>http_method = ''get'', url = ''https://api.xero.com/api.xro/2.0/Items'',
                 authorization = ''Bearer at1'', xero_tenant_id = ''tenant-1'', body = []\<rparr>,
        TokenPost (RefreshToken (Some ''rt1'')),
        DbUpdate 7 ''tenant-1'',
        ApiCall \<lparr>http_method = ''get'', url = ''https://api.xero.com/api.xro/2.0/Items'',
                 authorization = ''Bearer at2'', xero_tenant_id = ''tenant-1'', body = []\<rparr>] \<and>
   fst (xeroRequest sample_runtime sample_env 7 True ''get'' ''/Items'' []
     (stored_world sample_tokens [\<lambda>req. Failure 401 ''expired'', \<lambda>req. Failure 401 ''again'']
        [\<lambda>req. Success fresh_tokens, \<lambda>req. Success sample_tokens]))
     = Inl (AxiosError XERO_API (Some (401, ''again''))) \<and>
   filter is_token_post
     (log (snd (xeroRequest sample_runtime sample_env 7 True ''get'' ''/Items'' []
       (stored_world sample_tokens [\<lambda>req. Failure 401 ''expired'', \<lambda>req. Failure 401 ''again'']
          [\<lambda>req. Success fresh_tokens, \<lambda>req. Success sample_tokens]))))
     = [TokenPost (RefreshToken (Some ''rt1''))] \<and>
   fst (xeroRequest sample_runtime sample_env 7 True ''get'' ''/Items'' []
     (stored_world sample_tokens [\<lambda>req. Failure 500 ''boom'', \<lambda>req. Success ''{Items:[]}'']
        [\<lambda>req. Success fresh_tokens]))
     = Inl (AxiosError XERO_API (Some (500, ''boom''))) \<and>
   log (snd (xeroRequest sample_runtime sample_env 7 True ''get'' ''/Items'' []
     (stored_world sample_tokens [\<lambda>req. Failure 500 ''boom'', \<lambda>req. Success ''{Items:[]}'']
        [\<lambda>req. Success fresh_tokens])))
     = [DbUpsert 7 ''tenant-1'',
        ApiCall \<lparr>http_method = ''get'', url = ''https://api.xero.com/api.xro/2.0/Items'',
                 authorization = ''Bearer at1'', xero_tenant_id = ''tenant-1'', body = []\<rparr>] \<and>
   fst (xeroRequest sample_runtime sample_env 99 False ''get'' ''/Items'' []
     (stored_world sample_tokens [\<lambda>req. Failure 401 ''expired'', \<lambda>req. Success ''{Items:[]}'']
        [\<lambda>req. Success fresh_tokens])) = Inr ''{Items:[]}'' \<and>
   log (snd (xeroRequest sample_runtime sample_env 99 False ''get'' ''/Items'' []
     (stored_world sample_tokens [\<lambda>req. Failure 401 ''expired'', \<lambda>req. Success ''{Items:[]}'']
        [\<lambda>req. Success fresh_tokens])))
     = [DbUpsert 7 ''tenant-1'',
        ApiCall \<lparr>http_method = ''get'', url = ''https://api.xero.com/api.xro/2.0/Items'',
                 authorization = ''Bearer at1'', xero_tenant_id = ''tenant-1'', body = []\<rparr>,
        TokenPost (RefreshToken (Some ''rt1'')),
        DbUpdate 7 ''tenant-1'',
        ApiCall \<lparr>http_method = ''get'', url = ''https://api.xero.com/api.xro/2.0/Items'',
                 authorization = ''Bearer at2'', xero_tenant_id = ''tenant-1'', body = []\<rparr>]"
proof -
  let ?ti = "\<lparr>accessToken = Some ''at1'', refreshToken = Some ''rt1'', tenantId_t = ''tenant-1'',
              connectionUserId = 7\<rparr>"
  have ev: "ensureValidToken sample_runtime sample_env 7 True None
              (stored_world sample_tokens api tok) = Inr ?ti" for api tok
    using stored_world_token[OF sample_json(1)] by (simp add: sample_tokens_def)
  have ev99: "ensureValidToken sample_runtime sample_env 99 False None
              (stored_world sample_tokens api tok) = Inr ?ti" for api tok
    using stored_world_system_token[OF sample_json(1)] by (simp add: sample_tokens_def)
  note rest = sample_key_configured sample_gcm_correct sample_json(2)
  have nt: "access_token fresh_tokens = Some ''at2''" by (simp add: fresh_tokens_def)
  note ev sample_key_configured sample_gcm_correct sample_json(2)
  moreover
  from refresh_once_retry_once[OF
      ev[of "[\<lambda>req. Failure 401 ''expired'', \<lambda>req. Success ''{Items:[]}'']"
            "[\<lambda>req. Success fresh_tokens]"] rest,
      where meth = "''get''" and urlPath = "''/Items''" and config = "[]" and b = "''expired''"]
  have "fst (xeroRequest sample_runtime sample_env 7 True ''get'' ''/Items'' []
     (stored_world sample_tokens [\<lambda>req. Failure 401 ''expired'', \<lambda>req. Success ''{Items:[]}'']
        [\<lambda>req. Success fresh_tokens])) = Inr ''{Items:[]}''"
    and "log (snd (xeroRequest sample_runtime sample_env 7 True ''get'' ''/Items'' []
     (stored_world sample_tokens [\<lambda>req. Failure 401 ''expired'', \<lambda>req. Success ''{Items:[]}'']
        [\<lambda>req. Success fresh_tokens])))
     = [DbUpsert 7 ''tenant-1'',
        ApiCall \<lparr>http_method = ''get'', url = ''https://api.xero.com/api.xro/2.0/Items'',
                 authorization = ''Bearer at1'', xero_tenant_id = ''tenant-1'', body = []\<rparr>,
        TokenPost (RefreshToken (Some ''rt1'')),
        DbUpdate 7 ''tenant-1'',
        ApiCall \<lparr>http_method = ''get'', url = ''https://api.xero.com/api.xro/2.0/Items'',
                 authorization = ''Bearer at2'', xero_tenant_id = ''tenant-1'', body = []\<rparr>]"
    by (simp_all add: stored_world_log next_reply_def truthy_def settle_def nt
        api_request_for_def bearer_def)
  moreover
  from refresh_once_retry_once[OF
      ev[of "[\<lambda>req. Failure 401 ''expired'', \<lambda>req. Failure 401 ''again'']"
            "[\<lambda>req. Success fresh_tokens, \<lambda>req. Success sample_tokens]"] rest,
      where meth = "''get''" and urlPath = "''/Items''" and config = "[]" and b = "''expired''"]
  have "fst (xeroRequest sample_runtime sample_env 7 True ''get'' ''/Items'' []
     (stored_world sample_tokens [\<lambda>req. Failure 401 ''expired'', \<lambda>req. Failure 401 ''again'']
        [\<lambda>req. Success fresh_tokens, \<lambda>req. Success sample_tokens]))
     = Inl (AxiosError XERO_API (Some (401, ''again'')))"
    and "filter is_token_post
     (log (snd (xeroRequest sample_runtime sample_env 7 True ''get'' ''/Items'' []
       (stored_world sample_tokens [\<lambda>req. Failure 401 ''expired'', \<lambda>req. Failure 401 ''again'']
          [\<lambda>req. Success fresh_tokens, \<lambda>req. Success sample_tokens]))))
     = [TokenPost (RefreshToken (Some ''rt1''))]"
    by (simp_all add: stored_world_log next_reply_def truthy_def settle_def nt is_token_post_def)
  moreover
  from refresh_once_retry_once[OF
      ev[of "[\<lambda>req. Failure 500 ''boom'', \<lambda>req. Success ''{Items:[]}'']"
            "[\<lambda>req. Success fresh_tokens]"] rest,
      where meth = "''get''" and urlPath = "''/Items''" and config = "[]" and st = 500
        and b = "''boom''"]
  have "fst (xeroRequest sample_runtime sample_env 7 True ''get'' ''/Items'' []
     (stored_world sample_tokens [\<lambda>req. Failure 500 ''boom'', \<lambda>req. Success ''{Items:[]}'']
        [\<lambda>req. Success fresh_tokens]))
     = Inl (AxiosError XERO_API (Some (500, ''boom'')))"
    and "log (snd (xeroRequest sample_runtime sample_env 7 True ''get'' ''/Items'' []
     (stored_world sample_tokens [\<lambda>req. Failure 500 ''boom'', \<lambda>req. Success ''{Items:[]}'']
        [\<lambda>req. Success fresh_tokens])))
     = [DbUpsert 7 ''tenant-1'',
        ApiCall \<lparr>http_method = ''get'', url = ''https://api.xero.com/api.xro/2.0/Items'',
                 authorization = ''Bearer at1'', xero_tenant_id = ''tenant-1'', body = []\<rparr>]"
    by (simp_all add: stored_world_log next_reply_def api_request_for_def bearer_def)
  moreover
  from refresh_once_retry_once[OF
      ev99[of "[\<lambda>req. Failure 401 ''expired'', \<lambda>req. Success ''{Items:[]}'']"
            "[\<lambda>req. Success fresh_tokens]"] rest,
      where meth = "''get''" and urlPath = "''/Items''" and config = "[]" and b = "''expired''"]
  have "fst (xeroRequest sample_runtime sample_env 99 False ''get'' ''/Items'' []
     (stored_world sample_tokens [\<lambda>req. Failure 401 ''expired'', \<lambda>req. Success ''{Items:[]}'']
        [\<lambda>req. Success fresh_tokens])) = Inr ''{Items:[]}''"
    and "log (snd (xeroRequest sample_runtime sample_env 99 False ''get'' ''/Items'' []
     (stored_world sample_tokens [\<lambda>req. Failure 401 ''expired'', \<lambda>req. Success ''{Items:[]}'']
        [\<lambda>req. Success fresh_tokens])))
     = [DbUpsert 7 ''tenant-1'',
        ApiCall \<lparr>http_method = ''get'', url = ''https://api.xero.com/api.xro/2.0/Items'',
                 authorization = ''Bearer at1'', xero_tenant_id = ''tenant-1'', body = []\<rparr>,
        TokenPost (RefreshToken (Some ''rt1'')),
        DbUpdate 7 ''tenant-1'',
        ApiCall \<lparr>http_method = ''get'', url = ''https://api.xero.com/api.xro/2.0/Items'',
                 authorization = ''Bearer at2'', xero_tenant_id = ''tenant-1'', body = []\<rparr>]"
    by (simp_all add: stored_world_log next_reply_def truthy_def settle_def nt
        api_request_for_def bearer_def)
  ultimately show ?thesis by blast
qed

text \<open>
  C1 as stated fails for a stored bundle without a refresh token: the first response is
  a 401, a refresh would be answered and a retry would succeed, and the call makes no
  token request and no retry; it fails with the 401.
\<close>

theorem first_401_without_refresh:
  "next_reply
     (api_replies (stored_world lone_tokens
        [\<lambda>req. Failure 401 ''expired'', \<lambda>req. Success ''{Items:[]}''] [\<lambda>req. Success fresh_tokens]))
     \<lparr>http_method = ''get'', url = ''https://api.xero.com/api.xro/2.0/Items'',
      authorization = ''Bearer at3'', xero_tenant_id = ''tenant-1'', body = []\<rparr>
     = Failure 401 ''expired'' \<and>
   fst (xeroRequest sample_runtime sample_env 7 True ''get'' ''/Items'' []
     (stored_world lone_tokens
        [\<lambda>req. Failure 401 ''expired'', \<lambda>req. Success ''{Items:[]}''] [\<lambda>req. Success fresh_tokens]))
     = Inl (AxiosError XERO_API (Some (401, ''expired''))) \<and>
   log (snd (xeroRequest sample_runtime sample_env 7 True ''get'' ''/Items'' []
     (stored_world lone_tokens
        [\<lambda>req. Failure 401 ''expired'', \<lambda>req. Success ''{Items:[]}''] [\<lambda>req. Success fresh_tokens])))
     = [DbUpsert 7 ''tenant-1'',
        ApiCall \<lparr>http_method = ''get'', url = ''https://api.xero.com/api.xro/2.0/Items'',
                 authorization = ''Bearer at3'', xero_tenant_id = ''tenant-1'', body = []\<rparr>] \<and>
   filter is_token_post
     (log (snd (xeroRequest sample_runtime sample_env 7 True ''get'' ''/Items'' []
       (stored_world lone_tokens
          [\<lambda>req. Failure 401 ''expired'', \<lambda>req. Success ''{Items:[]}'']
          [\<lambda>req. Success fresh_tokens])))) = []"
proof -
  let ?w = "stored_world lone_tokens
        [\<lambda>req. Failure 401 ''expired'', \<lambda>req. Success ''{Items:[]}''] [\<lambda>req. Success fresh_tokens]"
  let ?ti = "\<lparr>accessToken = Some ''at3'', refreshToken = None, tenantId_t = ''tenant-1'',
              connectionUserId = 7\<rparr>"
  have ev: "ensureValidToken sample_runtime sample_env 7 True None ?w = Inr ?ti"
    using stored_world_token[OF sample_json(3)] by (simp add: lone_tokens_def)
  have rt: "refreshToken ?ti = None \<or> refreshToken ?ti = Some []" by simp
  have rp: "next_reply (api_replies ?w) (api_request_for ?ti ''get'' ''/Items'' [] (accessToken ?ti))
              = Failure 401 ''expired''"
    by (simp add: stored_world_log next_reply_def)
  from pipeline_without_refresh_token[OF ev rt rp] rp show ?thesis
    by (simp add: stored_world_log api_request_for_def bearer_def is_token_post_def)
qed

subsection \<open>Stored bundles are the provider's token responses\<close>

lemma bundle_of_cong:
  "encrypted_tokens r = encrypted_tokens r' \<Longrightarrow> encryption_iv r = encryption_iv r' \<Longrightarrow>
   encryption_tag r = encryption_tag r' \<Longrightarrow> bundle_of R e r = bundle_of R e r'"
  by (simp add: bundle_of_def)

lemma insert_on_conflict_rows:
  assumes "r \<in> set (rows (snd (insert_on_conflict u t n s sys w)))"
  shows "r \<in> set (rows w) \<or>
         (encrypted_tokens r = encrypted s \<and> encryption_iv r = iv s \<and> encryption_tag r = tag s)"
  using assms by (auto simp: insert_on_conflict_def split: option.splits if_splits)

lemma save_bundles:
  assumes "key_configured e key" and "gcm_correct R key" and "json_faithful R t"
    and "r \<in> set (rows (snd (saveXeroConnection R e u tn n t sys w)))"
  shows "r \<in> set (rows w) \<or> bundle_of R e r = Inr t"
proof -
  obtain s w1 where enc: "encryptTokens R e t w = (Inr s, w1)" and rw: "rows w1 = rows w"
    and save: "saveXeroConnection R e u tn n t sys w =
       (Inr (fst (insert_on_conflict u tn n s sys w1)), snd (insert_on_conflict u tn n s sys w1))"
    using save_steps[OF assms(1)] by blast
  from assms(4) insert_on_conflict_rows[of r u tn n s sys w1] rw
  have "r \<in> set (rows w) \<or>
         (encrypted_tokens r = encrypted s \<and> encryption_iv r = iv s \<and> encryption_tag r = tag s)"
    by (simp add: save)
  with encrypt_bundle[OF assms(1-3) enc, of r] show ?thesis by blast
qed

lemma save_replies:
  "token_replies (snd (saveXeroConnection R e u tn n t sys w)) = token_replies w"
proof (cases "encryptTokens R e t w")
  case (Pair res w1)
  with encrypt_rows[OF Pair] show ?thesis
    by (cases res) (simp_all add: saveXeroConnection_def insert_on_conflict_def
        split: option.splits prod.splits)
qed

lemma update_bundles:
  assumes "key_configured e key" and "gcm_correct R key" and "json_faithful R t"
    and "r \<in> set (rows (snd (updateXeroTokens R e u tn t w)))"
  shows "(\<exists>r0 \<in> set (rows w). bundle_of R e r = bundle_of R e r0) \<or> bundle_of R e r = Inr t"
proof -
  obtain s w1 where enc: "encryptTokens R e t w = (Inr s, w1)"
    and upd: "updateXeroTokens R e u tn t w = (Inr (), update_tokens u tn s w1)"
    using update_steps[OF assms(1)] by blast
  from assms(4) have "r \<in> set (rows w1) \<or>
      (encrypted_tokens r = encrypted s \<and> encryption_iv r = iv s \<and> encryption_tag r = tag s)"
    by (auto simp: upd update_tokens_effect split: if_splits)
  with encrypt_bundle[OF assms(1-3) enc, of r] encrypt_rows[OF enc] show ?thesis by auto
qed

lemma update_replies:
  "token_replies (snd (updateXeroTokens R e u tn t w)) = token_replies w"
proof (cases "encryptTokens R e t w")
  case (Pair res w1)
  with encrypt_rows[OF Pair] show ?thesis
    by (cases res) (simp_all add: updateXeroTokens_def update_tokens_def)
qed

lemma provider_pairs_reply:
  assumes "provider_pairs R w" and "next_reply (token_replies w) req = Success t"
  shows "has_pair t \<and> json_faithful R t"
  using assms by (cases "token_replies w") (auto simp: provider_pairs_def next_reply_def)

lemma provider_pairs_tl:
  "provider_pairs R w \<Longrightarrow> token_replies w' = token_replies w \<or> token_replies w' = tl (token_replies w)
     \<Longrightarrow> provider_pairs R w'"
  by (cases "token_replies w") (auto simp: provider_pairs_def)

lemma paired_row_iff: "paired_row R e r \<longleftrightarrow> (\<exists>t. bundle_of R e r = Inr t \<and> has_pair t)"
  by (cases "bundle_of R e r") (auto simp: paired_row_def)

lemma paired_row_case:
  "(case bundle_of R e r of Inl err \<Rightarrow> False | Inr t \<Rightarrow> has_pair t) = paired_row R e r"
  by (simp add: paired_row_def)

lemma all_paired_iff: "all_paired R e w \<longleftrightarrow> (\<forall>r \<in> set (rows w). paired_row R e r)"
  by (simp add: all_paired_def list_all_iff paired_row_case)

lemma snd_case_sum: "snd (case x of Inl a \<Rightarrow> (f a, w) | Inr b \<Rightarrow> (g b, w)) = w"
  by (cases x) simp_all

lemma callback_preserves:
  assumes "key_configured e key" and "gcm_correct R key"
    and "all_paired R e w" and "provider_pairs R w"
  shows "all_paired R e (snd (callback R e q w)) \<and> provider_pairs R (snd (callback R e q w))"
proof (cases "if state_rejected q then None else session_userId q")
  case None
  with assms show ?thesis by (simp add: callback_def)
next
  case (Some uid)
  let ?req = "AuthorizationCode (code_q q) (PUBLIC_URL e @ ''/callback'')"
  let ?w1 = "w\<lparr>token_replies := tl (token_replies w), log := log w @ [TokenPost ?req]\<rparr>"
  have p1: "provider_pairs R ?w1" "all_paired R e ?w1"
    using assms(3,4) provider_pairs_tl[of R w ?w1] by (simp_all add: all_paired_def)
  show ?thesis
  proof (cases "next_reply (token_replies w) ?req")
    case (Success t)
    then have t: "has_pair t" "json_faithful R t"
      using provider_pairs_reply[OF assms(4)] by blast+
    let ?w2 = "?w1\<lparr>conn_replies := tl (conn_replies ?w1),
                   log := log ?w1 @ [ConnGet (bearer (access_token t))]\<rparr>"
    have p2: "provider_pairs R ?w2" "all_paired R e ?w2"
      using p1 provider_pairs_tl[of R ?w1 ?w2] by (simp_all add: all_paired_def)
    have saved: "all_paired R e (snd (saveXeroConnection R e uid tn n t sys ?w2)) \<and>
                 provider_pairs R (snd (saveXeroConnection R e uid tn n t sys ?w2))" for tn n sys
    proof
      show "all_paired R e (snd (saveXeroConnection R e uid tn n t sys ?w2))"
        unfolding all_paired_iff
      proof
        fix r assume "r \<in> set (rows (snd (saveXeroConnection R e uid tn n t sys ?w2)))"
        from save_bundles[OF assms(1,2) t(2) this] p2(2) t(1)
        show "paired_row R e r" by (auto simp: all_paired_iff paired_row_iff)
      qed
      show "provider_pairs R (snd (saveXeroConnection R e uid tn n t sys ?w2))"
        using p2(1) by (rule provider_pairs_tl) (simp add: save_replies)
    qed
    have "snd (callback R e q w) = ?w2 \<or>
          (\<exists>tn n sys. snd (callback R e q w) = snd (saveXeroConnection R e uid tn n t sys ?w2))"
      by (simp add: callback_def Some post_token_def Success get_connections_def settle_def
          case_prod_beta snd_case_sum split: reply.split option.split list.split) blast
    with p2 saved show ?thesis by auto
  next
    case (Failure st b)
    with Some p1 show ?thesis by (simp add: callback_def post_token_def settle_def)
  next
    case NoReply
    with Some p1 show ?thesis by (simp add: callback_def post_token_def settle_def)
  qed
qed

lemma xeroRequest_world:
  "(rows (snd (xeroRequest R e uid isAdmin meth urlPath config w)) = rows w \<or>
    (\<exists>u tn rt nt w2. next_reply (token_replies w) (RefreshToken rt) = Success nt \<and>
        rows w2 = rows w \<and>
        rows (snd (xeroRequest R e uid isAdmin meth urlPath config w))
          = rows (snd (updateXeroTokens R e u tn nt w2)))) \<and>
   (token_replies (snd (xeroRequest R e uid isAdmin meth urlPath config w)) = token_replies w \<or>
    token_replies (snd (xeroRequest R e uid isAdmin meth urlPath config w))
      = tl (token_replies w))"
proof (cases "ensureValidToken R e uid isAdmin None w")
  case (Inl err)
  then show ?thesis by (simp add: xeroRequest_def)
next
  case (Inr ti)
  let ?req1 = "api_request_for ti meth urlPath config (accessToken ti)"
  let ?w1 = "w\<lparr>api_replies := tl (api_replies w), log := log w @ [ApiCall ?req1]\<rparr>"
  have first: "makeRequest ti meth urlPath config (accessToken ti) w
                 = (settle XERO_API (next_reply (api_replies w) ?req1), ?w1)"
    by (simp add: makeRequest_def axios_def)
  show ?thesis
  proof (cases "settle XERO_API (next_reply (api_replies w) ?req1)")
    case (Inr resp)
    then show ?thesis by (simp add: xeroRequest_def \<open>ensureValidToken R e uid isAdmin None w = Inr ti\<close> first)
  next
    case (Inl err)
    show ?thesis
    proof (cases "response_status err = Some 401 \<and> truthy (refreshToken ti)")
      case False
      then show ?thesis
        using Inl by (auto simp: xeroRequest_def \<open>ensureValidToken R e uid isAdmin None w = Inr ti\<close> first)
    next
      case True
      let ?rq = "RefreshToken (refreshToken ti)"
      define W2 where
        "W2 = w\<lparr>api_replies := tl (api_replies w), token_replies := tl (token_replies w),
                log := log w @ [ApiCall ?req1, TokenPost ?rq]\<rparr>"
      have pt: "post_token ?rq ?w1 = (settle XERO_TOKEN (next_reply (token_replies w) ?rq), W2)"
        by (simp add: post_token_def W2_def)
      show ?thesis
      proof (cases "settle XERO_TOKEN (next_reply (token_replies w) ?rq)")
        case (Inl err2)
        then show ?thesis using True \<open>settle XERO_API (next_reply (api_replies w) ?req1) = Inl err\<close>
          by (simp add: xeroRequest_def \<open>ensureValidToken R e uid isAdmin None w = Inr ti\<close> first
              refreshAccessToken_def pt) (simp add: W2_def)
      next
        case (Inr nt)
        then have nt: "next_reply (token_replies w) ?rq = Success nt"
          by (cases "next_reply (token_replies w) ?rq") (simp_all add: settle_def)
        define U where "U = snd (updateXeroTokens R e (connectionUserId ti) (tenantId_t ti) nt W2)"
        let ?x = "snd (xeroRequest R e uid isAdmin meth urlPath config w)"
        have ref: "refreshAccessToken R e (connectionUserId ti) (tenantId_t ti) (refreshToken ti) ?w1
            = (case fst (updateXeroTokens R e (connectionUserId ti) (tenantId_t ti) nt W2) of
                 Inl err \<Rightarrow> (Inl err, U)
               | Inr u \<Rightarrow> (Inr (access_token nt), U))"
          unfolding U_def by (simp add: refreshAccessToken_def pt Inr case_prod_beta)
        have run: "xeroRequest R e uid isAdmin meth urlPath config w
            = (case refreshAccessToken R e (connectionUserId ti) (tenantId_t ti) (refreshToken ti) ?w1 of
                 (Inl err2, w2) \<Rightarrow> (Inl err2, w2)
               | (Inr newAccessToken, w2) \<Rightarrow> makeRequest ti meth urlPath config newAccessToken w2)"
          using True \<open>settle XERO_API (next_reply (api_replies w) ?req1) = Inl err\<close>
          by (simp add: xeroRequest_def \<open>ensureValidToken R e uid isAdmin None w = Inr ti\<close> first)
        have x: "rows ?x = rows U \<and> token_replies ?x = token_replies U"
          unfolding run ref
          by (cases "fst (updateXeroTokens R e (connectionUserId ti) (tenantId_t ti) nt W2)")
            (simp_all add: makeRequest_def axios_def)
        have tr: "token_replies U = tl (token_replies w)"
          by (simp add: U_def update_replies) (simp add: W2_def)
        have rw: "rows W2 = rows w" by (simp add: W2_def)
        have "\<exists>u tn rt nt w2. next_reply (token_replies w) (RefreshToken rt) = Success nt \<and>
                rows w2 = rows w \<and> rows ?x = rows (snd (updateXeroTokens R e u tn nt w2))"
          using nt rw x unfolding U_def by blast
        with x tr show ?thesis by simp
      qed
    qed
  qed
qed

lemma xeroRequest_preserves:
  assumes "key_configured e key" and "gcm_correct R key"
    and "all_paired R e w" and "provider_pairs R w"
  shows "all_paired R e (snd (xeroRequest R e uid isAdmin meth urlPath config w)) \<and>
         provider_pairs R (snd (xeroRequest R e uid isAdmin meth urlPath config w))"
proof
  let ?x = "snd (xeroRequest R e uid isAdmin meth urlPath config w)"
  note world = xeroRequest_world[of R e uid isAdmin meth urlPath config w]
  from world show "provider_pairs R ?x"
    using provider_pairs_tl[OF assms(4), of ?x] by blast
  from world have "rows ?x = rows w \<or>
    (\<exists>u tn rt nt w2. next_reply (token_replies w) (RefreshToken rt) = Success nt \<and>
        rows w2 = rows w \<and> rows ?x = rows (snd (updateXeroTokens R e u tn nt w2)))"
    by blast
  then show "all_paired R e ?x"
  proof (elim disjE exE conjE)
    assume "rows ?x = rows w"
    with assms(3) show ?thesis by (simp add: all_paired_def)
  next
    fix u tn rt nt w2
    assume nt: "next_reply (token_replies w) (RefreshToken rt) = Success nt"
      and w2: "rows w2 = rows w"
      and x: "rows ?x = rows (snd (updateXeroTokens R e u tn nt w2))"
    from provider_pairs_reply[OF assms(4) nt] have t: "has_pair nt" "json_faithful R nt" by blast+
    show ?thesis
      unfolding all_paired_iff x
    proof
      fix r assume "r \<in> set (rows (snd (updateXeroTokens R e u tn nt w2)))"
      from update_bundles[OF assms(1,2) t(2) this] t(1) assms(3) w2
      show "paired_row R e r" by (auto simp: all_paired_iff paired_row_iff)
    qed
  qed
qed

lemma delete_preserves:
  assumes "all_paired R e w" and "provider_pairs R w"
  shows "all_paired R e (snd (deleteXeroConnection uid tid w)) \<and>
         provider_pairs R (snd (deleteXeroConnection uid tid w))"
  using assms by (auto simp: deleteXeroConnection_def all_paired_iff provider_pairs_def)

lemma step_preserves:
  assumes "key_configured e key" and "gcm_correct R key"
    and "all_paired R e w" and "provider_pairs R w"
  shows "all_paired R e (step R e w op) \<and> provider_pairs R (step R e w op)"
proof (cases op)
  case (Callback q)
  with callback_preserves[OF assms] show ?thesis by simp
next
  case (Request uid isAdmin meth urlPath config)
  with xeroRequest_preserves[OF assms] show ?thesis by simp
next
  case (Disconnect uid tid)
  with delete_preserves[OF assms(3,4)] show ?thesis by simp
qed

lemma run_preserves:
  assumes "key_configured e key" and "gcm_correct R key"
  shows "all_paired R e w \<Longrightarrow> provider_pairs R w \<Longrightarrow>
         all_paired R e (run R e ops w) \<and> provider_pairs R (run R e ops w)"
proof (induction ops arbitrary: w)
  case Nil
  then show ?case by (simp add: run_def)
next
  case (Cons op ops)
  from step_preserves[OF assms Cons.prems, of op]
  have "all_paired R e (step R e w op)" "provider_pairs R (step R e w op)" by blast+
  from Cons.IH[OF this] show ?case by (simp add: run_def)
qed

text \<open>
  C9, as amended. The code stores each token response of the provider whole and checks
  nothing in it. So the pairing is an invariant of the table exactly as far as the
  provider keeps it: if every token response the provider will give carries both tokens
  (and survives JSON), the key is configured and the cipher decrypts what it encrypted,
  then from a table whose records all decrypt to bundles with both tokens, every
  sequence of callbacks, pipeline calls and disconnects leads to such a table.
\<close>

theorem stored_pairs_follow_provider:
  assumes "key_configured e key" and "gcm_correct R key"
    and "all_paired R e w" and "provider_pairs R w"
  shows "all_paired R e (run R e ops w)"
  using run_preserves[OF assms] by blast

lemma save_into_empty:
  assumes "key_configured e key" and "gcm_correct R key" and "json_faithful R t"
    and "rows w = []"
  shows "\<exists>r. rows (snd (saveXeroConnection R e u tn n t sys w)) = [r] \<and>
             user_id r = u \<and> tenant_id r = tn \<and> bundle_of R e r = Inr t"
proof -
  obtain s w1 where enc: "encryptTokens R e t w = (Inr s, w1)" and rw: "rows w1 = rows w"
    and save: "saveXeroConnection R e u tn n t sys w =
       (Inr (fst (insert_on_conflict u tn n s sys w1)), snd (insert_on_conflict u tn n s sys w1))"
    using save_steps[OF assms(1)] by blast
  from rw assms(4) have "\<exists>r. rows (snd (insert_on_conflict u tn n s sys w1)) = [r] \<and>
      user_id r = u \<and> tenant_id r = tn \<and> encrypted_tokens r = encrypted s \<and>
      encryption_iv r = iv s \<and> encryption_tag r = tag s"
    by (simp add: insert_on_conflict_def)
  with encrypt_bundle[OF assms(1-3) enc] show ?thesis by (auto simp: save)
qed

text \<open>The world after a callback that reaches the upsert.\<close>

lemma callback_saves:
  assumes "session_userId q = Some uid" and "uid \<noteq> 0" and "state_q q = Some (toString uid)"
    and "next_reply (token_replies w)
           (AuthorizationCode (code_q q) (PUBLIC_URL e @ ''/callback'')) = Success t"
    and "next_reply (conn_replies w) (bearer (access_token t)) = Success (Some [c])"
  shows "snd (callback R e q w) =
           snd (saveXeroConnection R e uid (tenantId_o c) (tenantName_o c) t (isAdmin_q q)
                  (w\<lparr>token_replies := tl (token_replies w), conn_replies := tl (conn_replies w),
                     log := log w @ [TokenPost (AuthorizationCode (code_q q)
                                                   (PUBLIC_URL e @ ''/callback'')),
                                     ConnGet (bearer (access_token t))]\<rparr>))"
proof -
  have ok: "\<not> state_rejected q"
    using assms(1-3) toString_nonempty[of uid] by (simp add: state_rejected_def truthy_def)
  show ?thesis
    using ok assms(1,4,5)
    by (simp add: callback_def post_token_def get_connections_def settle_def js_sort_def
        case_prod_beta snd_case_sum)
qed

lemma single_row_token:
  assumes "rows w = [r]" and "user_id r = uid" and "bundle_of R e r = Inr t"
  shows "ensureValidToken R e uid True None w =
           Inr \<lparr>accessToken = access_token t, refreshToken = refresh_token t,
                tenantId_t = tenant_id r, connectionUserId = uid\<rparr>"
  using assms
  by (simp add: ensureValidToken_def getXeroConnection_def read_connection_def truthy_def
      bundle_of_def)

text \<open>
  C9 as stated fails: the provider answers the grant exchange with a bundle that has an
  access token and no refresh token, and the callback stores it.
\<close>

theorem access_token_stored_alone:
  "map (bundle_of sample_runtime sample_env)
     (rows (run sample_runtime sample_env [Callback (user7_callback ''7'')]
              (grant_world lone_tokens [june_org]))) = [Inr lone_tokens] \<and>
   access_token lone_tokens = Some ''at3'' \<and> refresh_token lone_tokens = None \<and>
   \<not> all_paired sample_runtime sample_env
       (run sample_runtime sample_env [Callback (user7_callback ''7'')]
          (grant_world lone_tokens [june_org]))"
proof -
  let ?q = "user7_callback ''7''" and ?w = "grant_world lone_tokens [june_org]"
  have h: "session_userId ?q = Some 7" "(7::nat) \<noteq> 0" "state_q ?q = Some (toString 7)"
    by (simp_all add: user7_callback_def toString.simps)
  have tr: "next_reply (token_replies ?w)
              (AuthorizationCode (code_q ?q) (PUBLIC_URL sample_env @ ''/callback''))
              = Success lone_tokens"
    and cr: "next_reply (conn_replies ?w) (bearer (access_token lone_tokens))
              = Success (Some [june_org])"
    and rw: "rows ?w = []"
    by (simp_all add: grant_world_def entropy_world_def empty_world_def next_reply_def)
  let ?w2 = "?w\<lparr>token_replies := tl (token_replies ?w), conn_replies := tl (conn_replies ?w),
                 log := log ?w @ [TokenPost (AuthorizationCode (code_q ?q)
                                              (PUBLIC_URL sample_env @ ''/callback'')),
                                  ConnGet (bearer (access_token lone_tokens))]\<rparr>"
  have "rows ?w2 = []" using rw by simp
  from save_into_empty[OF sample_key_configured sample_gcm_correct sample_json(3) this]
  obtain r where "rows (snd (callback sample_runtime sample_env ?q ?w)) = [r]"
    "bundle_of sample_runtime sample_env r = Inr lone_tokens"
    unfolding callback_saves[OF h tr cr] by blast
  then show ?thesis
    by (simp add: run_def all_paired_def has_pair_def) (simp add: lone_tokens_def)
qed

lemma save_api_replies:
  "api_replies (snd (saveXeroConnection R e u tn n t sys w)) = api_replies w"
proof (cases "encryptTokens R e t w")
  case (Pair res w1)
  with encrypt_rows[OF Pair] show ?thesis
    by (cases res) (simp_all add: saveXeroConnection_def insert_on_conflict_def
        split: option.splits prod.splits)
qed

text \<open>
  The witness runs a callback and then a pipeline call that refreshes: the one stored
  record holds first the bundle of the grant exchange and at the end the refreshed one.
\<close>

theorem stored_pairs_follow_provider_witness:
  "key_configured sample_env sample_key \<and> gcm_correct sample_runtime sample_key \<and>
   all_paired sample_runtime sample_env refresh_world \<and>
   provider_pairs sample_runtime refresh_world \<and>
   all_paired sample_runtime sample_env
     (run sample_runtime sample_env
        [Callback (user7_callback ''7''), Request 7 True ''get'' ''/Items'' []] refresh_world) \<and>
   map (bundle_of sample_runtime sample_env)
     (rows (run sample_runtime sample_env
        [Callback (user7_callback ''7''), Request 7 True ''get'' ''/Items'' []] refresh_world))
     = [Inr fresh_tokens]"
proof -
  let ?R = sample_runtime and ?e = sample_env
  let ?q = "user7_callback ''7''" and ?w = refresh_world
  have ap: "all_paired ?R ?e ?w"
    by (simp add: all_paired_def refresh_world_def entropy_world_def empty_world_def)
  have pp: "provider_pairs ?R ?w"
    using sample_json
    by (auto simp: provider_pairs_def refresh_world_def has_pair_def sample_tokens_def
        fresh_tokens_def)
  note inv = stored_pairs_follow_provider[OF sample_key_configured sample_gcm_correct ap pp,
      of "[Callback ?q, Request 7 True ''get'' ''/Items'' []]"]
  have h: "session_userId ?q = Some 7" "(7::nat) \<noteq> 0" "state_q ?q = Some (toString 7)"
    by (simp_all add: user7_callback_def toString.simps)
  have tr: "next_reply (token_replies ?w)
              (AuthorizationCode (code_q ?q) (PUBLIC_URL ?e @ ''/callback''))
              = Success sample_tokens"
    and cr: "next_reply (conn_replies ?w) (bearer (access_token sample_tokens))
              = Success (Some [june_org])"
    by (simp_all add: refresh_world_def next_reply_def)
  let ?w2 = "?w\<lparr>token_replies := tl (token_replies ?w), conn_replies := tl (conn_replies ?w),
                 log := log ?w @ [TokenPost (AuthorizationCode (code_q ?q)
                                              (PUBLIC_URL ?e @ ''/callback'')),
                                  ConnGet (bearer (access_token sample_tokens))]\<rparr>"
  define w1 where "w1 = snd (callback ?R ?e ?q ?w)"
  have w1: "w1 = snd (saveXeroConnection ?R ?e 7 (tenantId_o june_org) (tenantName_o june_org)
                        sample_tokens (isAdmin_q ?q) ?w2)"
    unfolding w1_def by (rule callback_saves[OF h tr cr])
  have "rows ?w2 = []"
    by (simp add: refresh_world_def entropy_world_def empty_world_def)
  from save_into_empty[OF sample_key_configured sample_gcm_correct sample_json(1) this]
  obtain r where r: "rows w1 = [r]" "user_id r = 7"
    "bundle_of ?R ?e r = Inr sample_tokens"
    unfolding w1 by blast
  have api: "api_replies w1 = [\<lambda>req. Failure 401 ''expired'', \<lambda>req. Success ''{Items:[]}'']"
    and tok: "token_replies w1 = [\<lambda>req. Success fresh_tokens]"
    unfolding w1 by (simp_all add: save_api_replies save_replies refresh_world_def)
  let ?ti = "\<lparr>accessToken = access_token sample_tokens, refreshToken = refresh_token sample_tokens,
              tenantId_t = tenant_id r, connectionUserId = 7\<rparr>"
  have ev: "ensureValidToken ?R ?e 7 True None w1 = Inr ?ti"
    by (rule single_row_token[OF r])
  have rt: "truthy (refreshToken ?ti)" by (simp add: truthy_def sample_tokens_def)
  have first: "next_reply (api_replies w1)
                 (api_request_for ?ti ''get'' ''/Items'' [] (accessToken ?ti))
                 = Failure 401 ''expired''"
    and nt: "next_reply (token_replies w1) (RefreshToken (refreshToken ?ti)) = Success fresh_tokens"
    by (simp_all add: api tok next_reply_def)
  from xeroRequest_refresh[OF ev sample_key_configured rt first nt]
  obtain s w0 w3 where enc: "encryptTokens ?R ?e fresh_tokens w0 = (Inr s, w3)"
    and rws: "rows (snd (xeroRequest ?R ?e 7 True ''get'' ''/Items'' [] w1))
      = map (\<lambda>r. if has_key (connectionUserId ?ti) (tenantId_t ?ti) r
                then r\<lparr>encrypted_tokens := encrypted s, encryption_iv := iv s,
                       encryption_tag := tag s, last_synced := clock w1\<rparr>
                else r) (rows w1)"
    by blast
  have "map (bundle_of ?R ?e) (rows (snd (xeroRequest ?R ?e 7 True ''get'' ''/Items'' [] w1)))
          = [Inr fresh_tokens]"
    unfolding rws r(1) using r(2)
    by (simp add: has_key_def
        encrypt_bundle[OF sample_key_configured sample_gcm_correct sample_json(2) enc])
  then have "map (bundle_of ?R ?e)
     (rows (run ?R ?e [Callback ?q, Request 7 True ''get'' ''/Items'' []] ?w)) = [Inr fresh_tokens]"
    by (simp add: run_def w1_def)
  with inv sample_key_configured sample_gcm_correct ap pp show ?thesis by blast
qed

end
